theory Spec2Isabelle
  imports Complex_Main
begin

section \<open>JavaScript values and exceptions\<close>

text \<open>
  The values the preflight script handles are the ones that come out of the sandbox's
  environment store and out of \<open>JSON.parse\<close>: \<open>undefined\<close>, \<open>null\<close>, booleans,
  numbers, strings, arrays and plain objects. An object is the list of its own properties
  in insertion order. Numbers are rationals (the finite doubles are rationals; \<open>NaN\<close>
  and the infinities do not occur among the values the script computes with here).
\<close>

datatype jsval =
    JUndefined
  | JNull
  | JBool bool
  | JNum rat
  | JStr string
  | JArr "jsval list"
  | JObj "(string \<times> jsval) list"

text \<open>A thrown value: the kind of the exception and its message.\<close>

datatype error =
    Error string
  | TypeError string
  | SyntaxError string
  | URIError string
  | DOMException string

text \<open>JavaScript's \<open>ToBoolean\<close>, used by \<open>if (x)\<close>, \<open>!x\<close> and \<open>x && y\<close>.\<close>

fun truthy :: "jsval \<Rightarrow> bool" where
  "truthy JUndefined = False"
| "truthy JNull = False"
| "truthy (JBool b) = b"
| "truthy (JNum n) = (n \<noteq> 0)"
| "truthy (JStr s) = (s \<noteq> [])"
| "truthy (JArr xs) = True"
| "truthy (JObj kvs) = True"

text \<open>
  Reading a property \<open>v.k\<close> (and destructuring \<open>const {k} = v\<close>): a \<open>TypeError\<close> on
  \<open>undefined\<close> and \<open>null\<close>, the own property of an object, and \<open>undefined\<close> where
  the property is missing. The property names the script reads (\<open>exp\<close>, \<open>typ\<close>,
  \<open>alg\<close>, \<open>body\<close>, \<open>code\<close>, \<open>error\<close>, \<open>access_token\<close>, \<open>refresh_token\<close>)
  are not defined on the prototypes of strings, numbers, booleans or arrays.
\<close>

fun getProp :: "jsval \<Rightarrow> string \<Rightarrow> error + jsval" where
  "getProp JUndefined k = Inl (TypeError (''Cannot read properties of undefined (reading '' @ k @ '')''))"
| "getProp JNull k = Inl (TypeError (''Cannot read properties of null (reading '' @ k @ '')''))"
| "getProp (JObj kvs) k = Inr (case map_of kvs k of Some v \<Rightarrow> v | None \<Rightarrow> JUndefined)"
| "getProp v k = Inr JUndefined"

text \<open>\<open>config[key]\<close> on the configuration object, which is never \<open>null\<close>.\<close>

definition field :: "(string \<times> jsval) list \<Rightarrow> string \<Rightarrow> jsval" where
  "field kvs k = (case map_of kvs k of Some v \<Rightarrow> v | None \<Rightarrow> JUndefined)"

section \<open>The host: built-ins and the sandbox's network helpers\<close>

text \<open>
  The script runs inside a host that provides the built-ins \<open>atob\<close>,
  \<open>decodeURIComponent\<close>, \<open>encodeURIComponent\<close>, \<open>JSON.parse\<close>, \<open>Date.now\<close> and the
  sandbox helpers \<open>explorer.fetch\<close> and \<open>explorer.oauth2Request\<close>. None of them is code
  of the repository, so they are parameters. Each may throw. The network helpers see the
  requests issued before, so a server may answer the same request differently over time.
  \<open>ToNumber_other\<close> is the host's conversion of strings, arrays and objects to
  numbers (\<open>None\<close> is \<open>NaN\<close>).
\<close>

datatype request =
    Fetch string jsval
  | OAuth2Request string jsval

record host =
  atob :: "string \<Rightarrow> error + string"
  decodeURIComponent :: "string \<Rightarrow> error + string"
  encodeURIComponent :: "jsval \<Rightarrow> error + string"
  JSON_parse :: "jsval \<Rightarrow> error + jsval"
  Date_now :: int
  ToNumber_other :: "jsval \<Rightarrow> rat option"
  explorer_fetch :: "request list \<Rightarrow> string \<Rightarrow> jsval \<Rightarrow> error + jsval"
  explorer_oauth2Request :: "request list \<Rightarrow> string \<Rightarrow> jsval \<Rightarrow> error + jsval"

text \<open>
  What the script can observe and change outside itself: the sandbox's environment
  variables, and, recorded for the claims about effects, every \<open>environment.set\<close>, every
  network request and every \<open>console.error\<close> in the order they happen.
\<close>

record world =
  environment :: "string \<rightharpoonup> jsval"
  env_writes :: "(string \<times> jsval) list"
  requests :: "request list"
  console_errors :: "(string \<times> error) list"

text \<open>The \<open>TokenManager\<close> object: its two fields, next to the world it acts on.\<close>

record state = world +
  token :: jsval
  refreshToken :: jsval

definition environment_get :: "string \<Rightarrow> (string \<rightharpoonup> jsval) \<Rightarrow> jsval" where
  "environment_get k env = (case env k of Some v \<Rightarrow> v | None \<Rightarrow> JUndefined)"

definition environment_set :: "string \<Rightarrow> jsval \<Rightarrow> state \<Rightarrow> state" where
  "environment_set k v s =
     s\<lparr>environment := (environment s)(k \<mapsto> v), env_writes := env_writes s @ [(k, v)]\<rparr>"

definition console_error :: "string \<Rightarrow> error \<Rightarrow> state \<Rightarrow> state" where
  "console_error msg e s = s\<lparr>console_errors := console_errors s @ [(msg, e)]\<rparr>"

definition log_request :: "request \<Rightarrow> state \<Rightarrow> state" where
  "log_request r s = s\<lparr>requests := requests s @ [r]\<rparr>"

section \<open>Configuration\<close>

text \<open>
  The article leaves five placeholders for the reader to fill in: the tenant name in the
  two endpoint URLs, and the client id, tenant id, state and scope of the configuration.
\<close>

record settings =
  tenant_name :: string
  client_id :: string
  tenant_id :: string
  state_string :: string
  scope :: string

definition ENDPOINTS_authorize :: "settings \<Rightarrow> string" where
  "ENDPOINTS_authorize S =
     ''https://login.microsoftonline.com/'' @ tenant_name S @ ''/oauth2/v2.0/authorize''"

definition ENDPOINTS_token :: "settings \<Rightarrow> string" where
  "ENDPOINTS_token S =
     ''https://login.microsoftonline.com/'' @ tenant_name S @ ''/oauth2/v2.0/token''"

definition config :: "settings \<Rightarrow> (string \<rightharpoonup> jsval) \<Rightarrow> (string \<times> jsval) list" where
  "config S env =
     [(''client_id'', JStr (client_id S)),
      (''tenant_id'', JStr (tenant_id S)),
      (''state'', JStr (state_string S)),
      (''scope'', JStr (scope S)),
      (''response_type'', JStr ''code''),
      (''code_challenge_method'', JStr ''S256''),
      (''code_challenge'', environment_get ''code_challenge'' env),
      (''code_verifier'', environment_get ''code_verifier'' env),
      (''redirect_uri'', JStr ''https://studio.apollographql.com/explorer-oauth2'')]"

text \<open>\<open>validateConfig\<close>: the first key, in the object's order, whose value is falsy throws.\<close>

definition validateConfig :: "(string \<times> jsval) list \<Rightarrow> error + unit" where
  "validateConfig cfg =
     (case filter (\<lambda>key. \<not> truthy (field cfg key)) (map fst cfg) of
        [] \<Rightarrow> Inr ()
      | key # _ \<Rightarrow> Inl (Error (''Missing config value for '' @ key)))"

section \<open>String helpers of the token manager\<close>

text \<open>\<open>s.split('.')\<close>: always at least one segment.\<close>

fun split_on :: "char \<Rightarrow> string \<Rightarrow> string list" where
  "split_on d [] = [[]]"
| "split_on d (c # cs) =
     (if c = d then [] # split_on d cs
      else (case split_on d cs of
              seg # segs \<Rightarrow> (c # seg) # segs
            | [] \<Rightarrow> [[c]]))"

text \<open>\<open>.replace(/-/g, '+').replace(/_/g, '/')\<close>\<close>

definition base64url_to_base64 :: "string \<Rightarrow> string" where
  "base64url_to_base64 s =
     map (\<lambda>c. if c = CHR ''_'' then CHR ''/'' else c)
       (map (\<lambda>c. if c = CHR ''-'' then CHR ''+'' else c) s)"

text \<open>
  \<open>'%' + ('00' + c.charCodeAt(0).toString(16)).slice(-2)\<close> for each character of the
  string \<open>atob\<close> returned, joined. \<open>atob\<close> returns characters with codes below 256, so the
  last two characters of the padded hexadecimal are its two hexadecimal digits.
\<close>

definition hex_digit :: "nat \<Rightarrow> char" where
  "hex_digit n = ''0123456789abcdef'' ! (n mod 16)"

definition percent_encode_char :: "char \<Rightarrow> string" where
  "percent_encode_char c =
     [CHR ''%'', hex_digit ((of_char c :: nat) div 16), hex_digit (of_char c :: nat)]"

definition percent_encode :: "string \<Rightarrow> string" where
  "percent_encode s = concat (map percent_encode_char s)"

text \<open>
  The decoding both \<open>parseJwt\<close> and \<open>isValidTokenHeader\<close> apply to a segment of the token:
  base64url to base64, \<open>atob\<close>, percent-encoding of every character,
  \<open>decodeURIComponent\<close>, \<open>JSON.parse\<close>. The source repeats these lines in both methods.
\<close>

definition decode_segment :: "host \<Rightarrow> string \<Rightarrow> error + jsval" where
  "decode_segment H base64Url =
     (case atob H (base64url_to_base64 base64Url) of
        Inl e \<Rightarrow> Inl e
      | Inr bytes \<Rightarrow>
          (case decodeURIComponent H (percent_encode bytes) of
             Inl e \<Rightarrow> Inl e
           | Inr jsonPayload \<Rightarrow> JSON_parse H (JStr jsonPayload)))"

text \<open>
  \<open>parseJwt(token)\<close>: \<open>token.split\<close> exists only on a string, and \<open>split('.')[1]\<close> is
  \<open>undefined\<close> when the token has no dot, on which \<open>.replace\<close> throws.
\<close>

definition parseJwt :: "host \<Rightarrow> jsval \<Rightarrow> error + jsval" where
  "parseJwt H tok =
     (case tok of
        JStr s \<Rightarrow>
          (case split_on CHR ''.'' s of
             _ # base64Url # _ \<Rightarrow> decode_segment H base64Url
           | _ \<Rightarrow> Inl (TypeError ''Cannot read properties of undefined (reading replace)''))
      | JUndefined \<Rightarrow> Inl (TypeError ''Cannot read properties of undefined (reading split)'')
      | JNull \<Rightarrow> Inl (TypeError ''Cannot read properties of null (reading split)'')
      | _ \<Rightarrow> Inl (TypeError ''token.split is not a function''))"

text \<open>\<open>constructRequestBody(data)\<close>: \<open>key=encodeURIComponent(value)\<close> joined by \<open>&\<close>.\<close>

fun join_amp :: "string list \<Rightarrow> string" where
  "join_amp [] = []"
| "join_amp [x] = x"
| "join_amp (x # y # ys) = x @ ''&'' @ join_amp (y # ys)"

fun encode_pairs :: "host \<Rightarrow> (string \<times> jsval) list \<Rightarrow> error + string list" where
  "encode_pairs H [] = Inr []"
| "encode_pairs H ((key, v) # kvs) =
     (case encodeURIComponent H v of
        Inl e \<Rightarrow> Inl e
      | Inr enc \<Rightarrow>
          (case encode_pairs H kvs of
             Inl e \<Rightarrow> Inl e
           | Inr rest \<Rightarrow> Inr ((key @ ''='' @ enc) # rest)))"

definition constructRequestBody :: "host \<Rightarrow> (string \<times> jsval) list \<Rightarrow> error + string" where
  "constructRequestBody H data =
     (case encode_pairs H data of Inl e \<Rightarrow> Inl e | Inr parts \<Rightarrow> Inr (join_amp parts))"

section \<open>The token manager\<close>

text \<open>The constructor reads both tokens from the environment.\<close>

definition TokenManager :: "world \<Rightarrow> state" where
  "TokenManager w =
     \<lparr>environment = environment w, env_writes = env_writes w, requests = requests w,
      console_errors = console_errors w,
      token = environment_get ''token'' (environment w),
      refreshToken = environment_get ''refresh_token'' (environment w)\<rparr>"

text \<open>
  The relational comparison \<open>v < n\<close> against a number: \<open>ToNumber\<close> of the left side,
  and \<open>false\<close> when that is \<open>NaN\<close>.
\<close>

definition ToNumber :: "host \<Rightarrow> jsval \<Rightarrow> rat option" where
  "ToNumber H v =
     (case v of
        JUndefined \<Rightarrow> None
      | JNull \<Rightarrow> Some 0
      | JBool b \<Rightarrow> Some (if b then 1 else 0)
      | JNum n \<Rightarrow> Some n
      | _ \<Rightarrow> ToNumber_other H v)"

definition js_less :: "host \<Rightarrow> jsval \<Rightarrow> rat \<Rightarrow> bool" where
  "js_less H v n = (case ToNumber H v of None \<Rightarrow> False | Some x \<Rightarrow> x < n)"

text \<open>
  \<open>isTokenExpired()\<close>: \<open>Date.now()\<close> is a whole number of milliseconds, so
  \<open>Math.floor(Date.now() / 1000)\<close> is the floor division.
\<close>

definition isTokenExpired :: "host \<Rightarrow> state \<Rightarrow> error + bool" where
  "isTokenExpired H s =
     (case parseJwt H (token s) of
        Inl e \<Rightarrow> Inl e
      | Inr decodedAccessToken \<Rightarrow>
          (case getProp decodedAccessToken ''exp'' of
             Inl e \<Rightarrow> Inl e
           | Inr exp_claim \<Rightarrow> Inr (js_less H exp_claim (of_int (Date_now H div 1000)))))"

text \<open>
  \<open>isValidTokenHeader()\<close>. The body of its \<open>try\<close> block is a function of its own, so that
  what the \<open>catch\<close> does can be stated: any exception of the body becomes \<open>false\<close>.
\<close>

definition isValidTokenHeader_try :: "host \<Rightarrow> state \<Rightarrow> error + bool" where
  "isValidTokenHeader_try H s =
     (case token s of
        JStr t \<Rightarrow>
          (case split_on CHR ''.'' t of
             [] \<Rightarrow> Inl (TypeError ''Cannot read properties of undefined (reading replace)'')
           | headerBase64Url # _ \<Rightarrow>
               (case decode_segment H headerBase64Url of
                  Inl e \<Rightarrow> Inl e
                | Inr header \<Rightarrow>
                    (case getProp header ''typ'' of
                       Inl e \<Rightarrow> Inl e
                     | Inr typ \<Rightarrow>
                         if typ \<noteq> JStr ''JWT'' then Inr False
                         else (case getProp header ''alg'' of
                                 Inl e \<Rightarrow> Inl e
                               | Inr alg \<Rightarrow>
                                   if alg \<notin> set [JStr ''HS256'', JStr ''RS256'']
                                   then Inr False
                                   else Inr True))))
      | JUndefined \<Rightarrow> Inl (TypeError ''Cannot read properties of undefined (reading split)'')
      | JNull \<Rightarrow> Inl (TypeError ''Cannot read properties of null (reading split)'')
      | _ \<Rightarrow> Inl (TypeError ''this.token.split is not a function''))"

definition isValidTokenHeader :: "host \<Rightarrow> state \<Rightarrow> error + bool" where
  "isValidTokenHeader H s =
     (case isValidTokenHeader_try H s of
        Inl e \<Rightarrow> Inr False
      | Inr b \<Rightarrow> Inr b)"

text \<open>
  \<open>retrieveNewTokens()\<close>: the interactive authorisation request, then the exchange of the
  code at the token endpoint. The arguments of \<open>explorer.fetch\<close> are evaluated before the
  call, so a failure in \<open>constructRequestBody\<close> issues no request.
\<close>

definition fetch_options :: "string \<Rightarrow> jsval" where
  "fetch_options body =
     JObj [(''method'', JStr ''POST''),
           (''headers'', JObj [(''Content-Type'', JStr ''application/x-www-form-urlencoded'')]),
           (''body'', JStr body)]"

definition retrieveNewTokens ::
  "host \<Rightarrow> settings \<Rightarrow> (string \<times> jsval) list \<Rightarrow> state \<Rightarrow> state \<times> (error + jsval \<times> jsval)" where
  "retrieveNewTokens H S cfg s =
     (let params = JObj [(''client_id'', field cfg ''client_id''),
                         (''state'', field cfg ''state''),
                         (''scope'', field cfg ''scope''),
                         (''response_type'', field cfg ''response_type''),
                         (''code_challenge_method'', field cfg ''code_challenge_method''),
                         (''code_challenge'', field cfg ''code_challenge'')];
          s1 = log_request (OAuth2Request (ENDPOINTS_authorize S) params) s
      in case explorer_oauth2Request H (requests s) (ENDPOINTS_authorize S) params of
           Inl e \<Rightarrow> (s1, Inl e)
         | Inr answer \<Rightarrow>
        (case getProp answer ''code'' of
           Inl e \<Rightarrow> (s1, Inl e)
         | Inr code \<Rightarrow>
        (case constructRequestBody H
                [(''client_id'', field cfg ''client_id''),
                 (''tenant_id'', field cfg ''tenant_id''),
                 (''code'', code),
                 (''code_verifier'', field cfg ''code_verifier''),
                 (''grant_type'', JStr ''authorization_code''),
                 (''redirect_uri'', field cfg ''redirect_uri'')] of
           Inl e \<Rightarrow> (s1, Inl e)
         | Inr body \<Rightarrow>
        (let s2 = log_request (Fetch (ENDPOINTS_token S) (fetch_options body)) s1
         in case explorer_fetch H (requests s1) (ENDPOINTS_token S) (fetch_options body) of
              Inl e \<Rightarrow> (s2, Inl e)
            | Inr tokenResponse \<Rightarrow>
           (case getProp tokenResponse ''body'' of
              Inl e \<Rightarrow> (s2, Inl e)
            | Inr response_body \<Rightarrow>
           (case JSON_parse H response_body of
              Inl e \<Rightarrow> (s2, Inl e)
            | Inr parsed \<Rightarrow>
           (case getProp parsed ''access_token'' of
              Inl e \<Rightarrow> (s2, Inl e)
            | Inr access_token \<Rightarrow>
           (case getProp parsed ''refresh_token'' of
              Inl e \<Rightarrow> (s2, Inl e)
            | Inr refresh_token \<Rightarrow> (s2, Inr (access_token, refresh_token))))))))))"

text \<open>
  \<open>refreshAccessToken()\<close>. The parsed body of the token endpoint's answer is computed by
  \<open>refresh_response\<close>, which also says whether the request was issued.
\<close>

definition refresh_response ::
  "host \<Rightarrow> settings \<Rightarrow> (string \<times> jsval) list \<Rightarrow> state \<Rightarrow> state \<times> (error + jsval)" where
  "refresh_response H S cfg s =
     (case constructRequestBody H
             [(''client_id'', field cfg ''client_id''),
              (''grant_type'', JStr ''refresh_token''),
              (''refresh_token'', refreshToken s)] of
        Inl e \<Rightarrow> (s, Inl e)
      | Inr body \<Rightarrow>
     (let s1 = log_request (Fetch (ENDPOINTS_token S) (fetch_options body)) s
      in case explorer_fetch H (requests s) (ENDPOINTS_token S) (fetch_options body) of
           Inl e \<Rightarrow> (s1, Inl e)
         | Inr tokenResponse \<Rightarrow>
        (case getProp tokenResponse ''body'' of
           Inl e \<Rightarrow> (s1, Inl e)
         | Inr response_body \<Rightarrow>
        (case JSON_parse H response_body of
           Inl e \<Rightarrow> (s1, Inl e)
         | Inr parsed \<Rightarrow> (s1, Inr parsed)))))"

definition refreshAccessToken ::
  "host \<Rightarrow> settings \<Rightarrow> (string \<times> jsval) list \<Rightarrow> state \<Rightarrow> state \<times> (error + jsval)" where
  "refreshAccessToken H S cfg s =
     (case refresh_response H S cfg s of
        (s1, Inl e) \<Rightarrow> (s1, Inl e)
      | (s1, Inr parsed) \<Rightarrow>
     (case getProp parsed ''access_token'' of
        Inl e \<Rightarrow> (s1, Inl e)
      | Inr access_token \<Rightarrow>
     (case getProp parsed ''error'' of
        Inl e \<Rightarrow> (s1, Inl e)
      | Inr err \<Rightarrow>
          if truthy err
          then (s1, Inl (Error ''Unable to refresh access token. Refresh token may be expired.''))
          else (s1, Inr access_token))))"

text \<open>
  The condition of the first \<open>if\<close> of \<open>getAccessToken\<close>:
  \<open>this.token && !this.isTokenExpired() && this.isValidTokenHeader()\<close>, evaluated left to
  right and cut short as \<open>&&\<close> does.
\<close>

definition cached_token_usable :: "host \<Rightarrow> state \<Rightarrow> error + bool" where
  "cached_token_usable H s =
     (if \<not> truthy (token s) then Inr False
      else (case isTokenExpired H s of
              Inl e \<Rightarrow> Inl e
            | Inr expired \<Rightarrow> if expired then Inr False else isValidTokenHeader H s))"

text \<open>The last six lines of \<open>getAccessToken\<close>: new tokens, stored in both places.\<close>

definition request_fresh_tokens ::
  "host \<Rightarrow> settings \<Rightarrow> (string \<times> jsval) list \<Rightarrow> state \<Rightarrow> state \<times> (error + jsval)" where
  "request_fresh_tokens H S cfg s =
     (case retrieveNewTokens H S cfg s of
        (s1, Inl e) \<Rightarrow> (s1, Inl e)
      | (s1, Inr (access_token, refresh_token)) \<Rightarrow>
          (let s2 = s1\<lparr>token := access_token, refreshToken := refresh_token\<rparr>;
               s3 = environment_set ''token'' (token s2) s2;
               s4 = environment_set ''refresh_token'' (refreshToken s3) s3
           in (s4, Inr (token s4))))"

definition getAccessToken ::
  "host \<Rightarrow> settings \<Rightarrow> (string \<times> jsval) list \<Rightarrow> state \<Rightarrow> state \<times> (error + jsval)" where
  "getAccessToken H S cfg s =
     (case cached_token_usable H s of
        Inl e \<Rightarrow> (s, Inl e)
      | Inr True \<Rightarrow> (s, Inr (token s))
      | Inr False \<Rightarrow>
          if truthy (refreshToken s) then
            (case refreshAccessToken H S cfg s of
               (s1, Inr new_token) \<Rightarrow>
                 (let s2 = s1\<lparr>token := new_token\<rparr>;
                      s3 = environment_set ''token'' (token s2) s2
                  in (s3, Inr (token s3)))
             | (s1, Inl e) \<Rightarrow>
                 request_fresh_tokens H S cfg
                   (console_error ''Failed to refresh access token:'' e s1))
          else request_fresh_tokens H S cfg s)"

text \<open>The script as a whole: validate, construct, get the token.\<close>

definition preflight :: "host \<Rightarrow> settings \<Rightarrow> world \<Rightarrow> state \<times> (error + jsval)" where
  "preflight H S w =
     (let cfg = config S (environment w)
      in case validateConfig cfg of
           Inl e \<Rightarrow> (TokenManager w, Inl e)
         | Inr _ \<Rightarrow> getAccessToken H S cfg (TokenManager w))"

section \<open>The page: storage, scrolling and the element tree\<close>

text \<open>
  An element of the page: tag name, attributes in the order they were set, the \<open>async\<close>
  property, and the children.
\<close>

datatype element =
  Element (tagName: string) (attributes: "(string \<times> string) list") (async: bool)
    (childNodes: "element list")

text \<open>
  The built-ins the components use: \<open>Number(s)\<close> on a string (\<open>None\<close> is \<open>NaN\<close>), the
  string a number is stored as by \<open>localStorage.setItem\<close>, and \<open>Date.now()\<close>, a whole
  number of milliseconds.
\<close>

record browser =
  Number_of_string :: "string \<Rightarrow> rat option"
  String_of_number :: "rat \<Rightarrow> string"
  Date_now_ms :: int

text \<open>
  The state of the page. Next to the storage itself, every \<open>getItem\<close>, \<open>setItem\<close> and
  \<open>window.scrollTo\<close> is recorded in the order of the calls. A scroll listener is the
  \<open>saveScrollPosition\<close> closure of one mounted hook, named by a number. \<open>setItem\<close> is taken
  to succeed.
\<close>

record page =
  localStorage :: "string \<rightharpoonup> string"
  storage_reads :: "string list"
  storage_writes :: "(string \<times> string) list"
  scrollY :: rat
  scrollTo_calls :: "(rat option \<times> string) list"
  scroll_listeners :: "nat list"
  next_listener :: nat
  document :: element

definition getItem :: "string \<Rightarrow> page \<Rightarrow> page \<times> string option" where
  "getItem k p = (p\<lparr>storage_reads := storage_reads p @ [k]\<rparr>, localStorage p k)"

definition setItem :: "string \<Rightarrow> string \<Rightarrow> page \<Rightarrow> page" where
  "setItem k v p =
     p\<lparr>localStorage := (localStorage p)(k \<mapsto> v), storage_writes := storage_writes p @ [(k, v)]\<rparr>"

definition scrollTo :: "rat option \<Rightarrow> string \<Rightarrow> page \<Rightarrow> page" where
  "scrollTo top_offset behavior p =
     p\<lparr>scrollTo_calls := scrollTo_calls p @ [(top_offset, behavior)]\<rparr>"

subsection \<open>useSaveScrollPosition\<close>

text \<open>The listener: \<open>localStorage.setItem('scrollPosition', window.scrollY)\<close>.\<close>

definition saveScrollPosition :: "browser \<Rightarrow> page \<Rightarrow> page" where
  "saveScrollPosition B p = setItem ''scrollPosition'' (String_of_number B (scrollY p)) p"

text \<open>
  The effect that runs on mount. \<open>getItem\<close> returns \<open>null\<close> or a string, and
  \<open>if (scrollPosition)\<close> holds for the non-empty strings. The result is the page and the
  listener the cleanup function will remove.
\<close>

definition useSaveScrollPosition_mount :: "browser \<Rightarrow> page \<Rightarrow> page \<times> nat" where
  "useSaveScrollPosition_mount B p =
     (case getItem ''scrollPosition'' p of
        (p1, scrollPosition) \<Rightarrow>
          (let p2 = (case scrollPosition of
                       None \<Rightarrow> p1
                     | Some v \<Rightarrow>
                         if v \<noteq> [] then scrollTo (Number_of_string B v) ''smooth'' p1 else p1);
               listener = next_listener p2
           in (p2\<lparr>scroll_listeners := scroll_listeners p2 @ [listener],
                  next_listener := Suc listener\<rparr>, listener)))"

text \<open>The cleanup that runs on unmount: \<open>removeEventListener\<close>.\<close>

definition useSaveScrollPosition_cleanup :: "nat \<Rightarrow> page \<Rightarrow> page" where
  "useSaveScrollPosition_cleanup listener p =
     p\<lparr>scroll_listeners := removeAll listener (scroll_listeners p)\<rparr>"

text \<open>A scroll event at offset \<open>y\<close>: every registered listener runs.\<close>

definition scroll_event :: "browser \<Rightarrow> rat \<Rightarrow> page \<Rightarrow> page" where
  "scroll_event B y p =
     fold (\<lambda>listener. saveScrollPosition B) (scroll_listeners p) (p\<lparr>scrollY := y\<rparr>)"

subsection \<open>Comments\<close>

text \<open>An element is addressed by the child indices that lead to it from the root.\<close>

fun lookup :: "element \<Rightarrow> nat list \<Rightarrow> element option" where
  "lookup e [] = Some e"
| "lookup e (i # path) =
     (if i < length (childNodes e) then lookup (childNodes e ! i) path else None)"

fun update_at :: "nat list \<Rightarrow> (element \<Rightarrow> element) \<Rightarrow> element \<Rightarrow> element" where
  "update_at [] f e = f e"
| "update_at (i # path) f e =
     (if i < length (childNodes e)
      then Element (tagName e) (attributes e) (async e)
             ((childNodes e)[i := update_at path f (childNodes e ! i)])
      else e)"

text \<open>\<open>document.getElementById\<close>: the first element in tree order with that id.\<close>

fun getElementById :: "string \<Rightarrow> element \<Rightarrow> nat list option"
  and getElementById_list :: "string \<Rightarrow> element list \<Rightarrow> nat \<Rightarrow> nat list option" where
  "getElementById i (Element t attrs a cs) =
     (if map_of attrs ''id'' = Some i then Some [] else getElementById_list i cs 0)"
| "getElementById_list i [] n = None"
| "getElementById_list i (c # cs) n =
     (case getElementById i c of
        Some path \<Rightarrow> Some (n # path)
      | None \<Rightarrow> getElementById_list i cs (Suc n))"

text \<open>\<open>setAttribute\<close> replaces the value of an attribute that is there, or adds it.\<close>

definition setAttribute :: "string \<Rightarrow> string \<Rightarrow> element \<Rightarrow> element" where
  "setAttribute k v e =
     Element (tagName e)
       (if k \<in> set (map fst (attributes e))
        then map (\<lambda>(k', v'). if k' = k then (k', v) else (k', v')) (attributes e)
        else attributes e @ [(k, v)])
       (async e) (childNodes e)"

definition set_async :: "bool \<Rightarrow> element \<Rightarrow> element" where
  "set_async b e = Element (tagName e) (attributes e) b (childNodes e)"

definition appendChild :: "element \<Rightarrow> element \<Rightarrow> element" where
  "appendChild child e = Element (tagName e) (attributes e) (async e) (childNodes e @ [child])"

definition createElement :: "string \<Rightarrow> element" where
  "createElement t = Element t [] False []"

text \<open>
  The decimal digits of \<open>Date.now()\<close>, as string concatenation renders a whole
  number.
\<close>

function digits :: "int \<Rightarrow> string" where
  "digits n =
     (if n < 10 then [''0123456789'' ! nat n]
      else digits (n div 10) @ [''0123456789'' ! nat (n mod 10)])"
  by pat_completeness auto
termination
  by (relation "measure nat") auto

declare digits.simps [simp del]

definition decimal :: "int \<Rightarrow> string" where
  "decimal n = (if n < 0 then CHR ''-'' # digits (- n) else digits n)"

text \<open>
  Assigning the template \<open><div id="..." />\<close> to \<open>innerHTML\<close> replaces the children by
  one empty \<open>div\<close> with that id; the id consists of letters, an underscore and digits.
\<close>

definition set_innerHTML_div :: "string \<Rightarrow> element \<Rightarrow> element" where
  "set_innerHTML_div node_id e =
     Element (tagName e) (attributes e) (async e) [Element ''div'' [(''id'', node_id)] False []]"

definition utterances_script :: element where
  "utterances_script =
     set_async True
       (setAttribute ''crossorigin'' ''anonymous''
         (setAttribute ''theme'' ''preferred-color-scheme''
           (setAttribute ''issue-term'' ''pathname''
             (setAttribute ''repo'' ''mxmnci/portfolio-website''
               (setAttribute ''src'' ''https://utteranc.es/client.js''
                 (createElement ''script''))))))"

text \<open>
  The effect of \<open>Comments\<close> on mount. \<open>commentBox\<close> is where the component's \<open>div\<close> sits
  in the page; when it is not there, \<open>commentBox.current\<close> is \<open>undefined\<close>.
\<close>

definition Comments_mount :: "browser \<Rightarrow> nat list \<Rightarrow> page \<Rightarrow> page \<times> (error + unit)" where
  "Comments_mount B commentBox p =
     (let commentNodeId = ''comments_'' @ decimal (Date_now_ms B)
      in case lookup (document p) commentBox of
           None \<Rightarrow>
             (p, Inl (TypeError ''Cannot set properties of undefined (setting innerHTML)''))
         | Some _ \<Rightarrow>
             (let p1 = p\<lparr>document :=
                          update_at commentBox (set_innerHTML_div commentNodeId) (document p)\<rparr>;
                  script = utterances_script
              in case getElementById commentNodeId (document p1) of
                   None \<Rightarrow>
                     (p1, Inl (TypeError ''Cannot read properties of null (reading appendChild)''))
                 | Some container \<Rightarrow>
                     (p1\<lparr>document := update_at container (appendChild script) (document p1)\<rparr>,
                      Inr ())))"

subsection \<open>What happens on a page\<close>

text \<open>
  The repository's code runs in these events only: a hook or a comment box is mounted,
  a hook is unmounted, the page is scrolled.
\<close>

datatype page_event =
    Mount_hook
  | Unmount_hook nat
  | Scroll rat
  | Mount_comments "nat list"

fun page_step :: "browser \<Rightarrow> page_event \<Rightarrow> page \<Rightarrow> page" where
  "page_step B Mount_hook p = fst (useSaveScrollPosition_mount B p)"
| "page_step B (Unmount_hook listener) p = useSaveScrollPosition_cleanup listener p"
| "page_step B (Scroll y) p = scroll_event B y p"
| "page_step B (Mount_comments commentBox) p = fst (Comments_mount B commentBox p)"

definition run_page :: "browser \<Rightarrow> page_event list \<Rightarrow> page \<Rightarrow> page" where
  "run_page B events p = fold (page_step B) events p"

section \<open>A demonstration host\<close>

text \<open>
  Concrete hosts for the examples. The built-ins are given on the inputs the examples
  reach, where they agree with a JavaScript engine; elsewhere their answers are
  placeholders. The clock stands at 2023-11-14 (1700000000 seconds).
\<close>

definition jwt_header_text :: string where
  \<open>jwt_header_text = ''{"typ":"JWT","alg":"HS256"}''\<close>

definition payload_2033_text :: string where
  \<open>payload_2033_text = ''{"exp":2000000000}''\<close>

definition payload_2001_text :: string where
  \<open>payload_2001_text = ''{"exp":1000000000}''\<close>

definition valid_jwt :: string where
  "valid_jwt = ''eyJ0eXAiOiJKV1QiLCJhbGciOiJIUzI1NiJ9.eyJleHAiOjIwMDAwMDAwMDB9.c2ln''"

definition expired_jwt :: string where
  "expired_jwt = ''eyJ0eXAiOiJKV1QiLCJhbGciOiJIUzI1NiJ9.eyJleHAiOjEwMDAwMDAwMDB9.c2ln''"

definition bad_header_jwt :: string where
  "bad_header_jwt = ''!!!.eyJleHAiOjIwMDAwMDAwMDB9.c2ln''"

definition bad_payload_jwt :: string where
  "bad_payload_jwt = ''eyJ0eXAiOiJKV1QiLCJhbGciOiJIUzI1NiJ9.!!!.c2ln''"

text \<open>A token whose header has \<open>_\<close> and \<open>-\<close> in its base64url text.\<close>

definition jwt_header_kid_text :: string where
  \<open>jwt_header_kid_text = ''{"typ":"JWT","alg":"RS256","kid":"a?>b~?"}''\<close>

definition rs256_jwt :: string where
  "rs256_jwt =
     ''eyJ0eXAiOiJKV1QiLCJhbGciOiJSUzI1NiIsImtpZCI6ImE_PmJ-PyJ9.eyJleHAiOjIwMDAwMDAwMDB9.c2ln''"

definition refreshed_body_text :: string where
  \<open>refreshed_body_text = ''{"access_token":"eyJ0eXAiOiJKV1QiLCJhbGciOiJIUzI1NiJ9.eyJleHAiOjIwMDAwMDAwMDB9.c2ln"}''\<close>

definition tokens_body_text :: string where
  \<open>tokens_body_text = ''{"access_token":"eyJ0eXAiOiJKV1QiLCJhbGciOiJIUzI1NiJ9.eyJleHAiOjIwMDAwMDAwMDB9.c2ln","refresh_token":"0.AXoB"}''\<close>

definition invalid_grant_body_text :: string where
  \<open>invalid_grant_body_text = ''{"error":"invalid_grant"}''\<close>

definition demo_atob :: "string \<Rightarrow> error + string" where
  "demo_atob s =
     (if s = ''eyJ0eXAiOiJKV1QiLCJhbGciOiJIUzI1NiJ9'' then Inr jwt_header_text
      else if s = ''eyJleHAiOjIwMDAwMDAwMDB9'' then Inr payload_2033_text
      else if s = ''eyJleHAiOjEwMDAwMDAwMDB9'' then Inr payload_2001_text
      else if s = ''eyJ0eXAiOiJKV1QiLCJhbGciOiJSUzI1NiIsImtpZCI6ImE/PmJ+PyJ9''
        then Inr jwt_header_kid_text
      else Inl (DOMException ''InvalidCharacterError''))"

definition unhex :: "char \<Rightarrow> nat option" where
  "unhex c =
     (let n = (of_char c :: nat) in
      if 48 \<le> n \<and> n \<le> 57 then Some (n - 48)
      else if 97 \<le> n \<and> n \<le> 102 then Some (n - 87)
      else if 65 \<le> n \<and> n \<le> 70 then Some (n - 55)
      else None)"

text \<open>Percent-decoding of ASCII; a byte above 127 would start a UTF-8 sequence.\<close>

fun demo_decodeURIComponent :: "string \<Rightarrow> error + string" where
  "demo_decodeURIComponent [] = Inr []"
| "demo_decodeURIComponent (c # cs) =
     (if c \<noteq> CHR ''%'' then
        (case demo_decodeURIComponent cs of Inl e \<Rightarrow> Inl e | Inr r \<Rightarrow> Inr (c # r))
      else (case cs of
              h1 # h2 # rest \<Rightarrow>
                (case (unhex h1, unhex h2) of
                   (Some a, Some b) \<Rightarrow>
                     if 16 * a + b < 128 then
                       (case demo_decodeURIComponent rest of
                          Inl e \<Rightarrow> Inl e
                        | Inr r \<Rightarrow> Inr (char_of (16 * a + b) # r))
                     else Inl (URIError ''URI malformed'')
                 | _ \<Rightarrow> Inl (URIError ''URI malformed''))
            | _ \<Rightarrow> Inl (URIError ''URI malformed'')))"

text \<open>
  Percent-encoding of strings of 8-bit characters: unreserved characters stay, the others
  become the upper-case hexadecimal of their UTF-8 bytes.
\<close>

definition unreserved :: "char \<Rightarrow> bool" where
  "unreserved c =
     (c \<in> set (CHR 0x27 #
        ''ABCDEFGHIJKLMNOPQRSTUVWXYZabcdefghijklmnopqrstuvwxyz0123456789-_.!~*()''))"

definition HEX_digit :: "nat \<Rightarrow> char" where
  "HEX_digit n = ''0123456789ABCDEF'' ! (n mod 16)"

definition demo_encode_byte :: "nat \<Rightarrow> string" where
  "demo_encode_byte n = [CHR ''%'', HEX_digit (n div 16), HEX_digit n]"

definition demo_encode_char :: "char \<Rightarrow> string" where
  "demo_encode_char c =
     (let n = (of_char c :: nat) in
      if unreserved c then [c]
      else if n < 128 then demo_encode_byte n
      else demo_encode_byte (192 + n div 64) @ demo_encode_byte (128 + n mod 64))"

definition demo_encodeURIComponent :: "jsval \<Rightarrow> error + string" where
  "demo_encodeURIComponent v =
     (case v of
        JStr s \<Rightarrow> Inr (concat (map demo_encode_char s))
      | JUndefined \<Rightarrow> Inr ''undefined''
      | JNull \<Rightarrow> Inr ''null''
      | JBool b \<Rightarrow> Inr (if b then ''true'' else ''false'')
      | _ \<Rightarrow> Inr ''%5Bobject%20Object%5D'')"

definition demo_JSON_parse :: "jsval \<Rightarrow> error + jsval" where
  "demo_JSON_parse v =
     (if v = JStr jwt_header_text
        then Inr (JObj [(''typ'', JStr ''JWT''), (''alg'', JStr ''HS256'')])
      else if v = JStr jwt_header_kid_text
        then Inr (JObj [(''typ'', JStr ''JWT''), (''alg'', JStr ''RS256''),
                        (''kid'', JStr ''a?>b~?'')])
      else if v = JStr payload_2033_text then Inr (JObj [(''exp'', JNum 2000000000)])
      else if v = JStr payload_2001_text then Inr (JObj [(''exp'', JNum 1000000000)])
      else if v = JStr refreshed_body_text
        then Inr (JObj [(''access_token'', JStr valid_jwt)])
      else if v = JStr tokens_body_text
        then Inr (JObj [(''access_token'', JStr valid_jwt), (''refresh_token'', JStr ''0.AXoB'')])
      else if v = JStr invalid_grant_body_text
        then Inr (JObj [(''error'', JStr ''invalid_grant'')])
      else if v = JStr ''null'' \<or> v = JNull then Inr JNull
      else Inl (SyntaxError ''Unexpected token''))"

text \<open>The host with the network down and the sign-in window closed by the user.\<close>

definition offline_host :: host where
  "offline_host =
     \<lparr>atob = demo_atob,
      decodeURIComponent = demo_decodeURIComponent,
      encodeURIComponent = demo_encodeURIComponent,
      JSON_parse = demo_JSON_parse,
      Date_now = 1700000000000,
      ToNumber_other = (\<lambda>v. None),
      explorer_fetch = (\<lambda>history url options. Inl (TypeError ''Failed to fetch'')),
      explorer_oauth2Request = (\<lambda>history url params. Inl (Error ''Authorization window closed''))\<rparr>"

text \<open>The token endpoint accepts the refresh token.\<close>

definition refreshing_host :: host where
  "refreshing_host =
     offline_host\<lparr>explorer_fetch :=
       (\<lambda>history url options. Inr (JObj [(''body'', JStr refreshed_body_text)]))\<rparr>"

text \<open>
  The token endpoint rejects the refresh token (the first request) and then exchanges
  the authorisation code for new tokens.
\<close>

definition reauthorising_host :: host where
  "reauthorising_host =
     offline_host\<lparr>explorer_fetch :=
       (\<lambda>history url options.
          if history = [] then Inr (JObj [(''body'', JStr invalid_grant_body_text)])
          else Inr (JObj [(''body'', JStr tokens_body_text)])),
       explorer_oauth2Request :=
       (\<lambda>history url params. Inr (JObj [(''code'', JStr ''M0ab92efe'')]))\<rparr>"

text \<open>The token endpoint answers with the JSON text \<open>null\<close>.\<close>

definition null_body_host :: host where
  "null_body_host =
     offline_host\<lparr>explorer_fetch :=
       (\<lambda>history url options. Inr (JObj [(''body'', JStr ''null'')]))\<rparr>"

text \<open>
  The sign-in succeeds, and the token endpoint answers every request with an HTML error
  page.
\<close>

definition html_body_host :: host where
  "html_body_host =
     offline_host\<lparr>explorer_fetch :=
       (\<lambda>history url options. Inr (JObj [(''body'', JStr ''<html>Service unavailable</html>'')])),
       explorer_oauth2Request :=
       (\<lambda>history url params. Inr (JObj [(''code'', JStr ''M0ab92efe'')]))\<rparr>"

definition demo_settings :: settings where
  "demo_settings =
     \<lparr>tenant_name = ''contoso.onmicrosoft.com'',
      client_id = ''6731de76-14a6-49ae-97bc-6eba6914391e'',
      tenant_id = ''72f988bf-86f1-41af-91ab-2d7cd011db47'',
      state_string = ''sandbox'',
      scope = ''openid offline_access''\<rparr>"

definition demo_world :: "jsval \<Rightarrow> jsval \<Rightarrow> world" where
  "demo_world tok refresh =
     \<lparr>environment =
        map_of [(''token'', tok), (''refresh_token'', refresh),
                (''code_challenge'', JStr ''E9Melhoa2OwvFrEMTJguCHaoeK1t8URWbuGJSstw-cM''),
                (''code_verifier'', JStr ''dBjftJeZ4CVP-mB92K27uhbUJU1p1r_wW1gFWFOEjXk'')],
      env_writes = [], requests = [], console_errors = []\<rparr>"

definition demo_config :: "(string \<times> jsval) list" where
  "demo_config = config demo_settings (environment (demo_world JUndefined JUndefined))"

definition demo_state :: "jsval \<Rightarrow> jsval \<Rightarrow> state" where
  "demo_state tok refresh = TokenManager (demo_world tok refresh)"

text \<open>A browser and a small page for the examples.\<close>

definition demo_browser :: browser where
  "demo_browser =
     \<lparr>Number_of_string =
        (\<lambda>s. if s = ''480'' then Some 480 else if s = ''120'' then Some 120
             else if s = [] then Some 0 else None),
      String_of_number =
        (\<lambda>y. if y = 480 then ''480'' else if y = 120 then ''120'' else ''0''),
      Date_now_ms = 1700000000000\<rparr>"

definition demo_document :: element where
  "demo_document =
     Element ''html'' [] False
       [Element ''head'' [] False [],
        Element ''body'' [] False
          [Element ''main'' [(''id'', ''content'')] False [],
           Element ''div'' [] False [Element ''p'' [] False []]]]"

definition demo_page :: "(string \<times> string) list \<Rightarrow> page" where
  "demo_page stored =
     \<lparr>localStorage = map_of stored, storage_reads = [], storage_writes = [],
      scrollY = 0, scrollTo_calls = [], scroll_listeners = [], next_listener = 0,
      document = demo_document\<rparr>"

section \<open>Facts about the string helpers\<close>

lemma split_on_nonempty: "split_on d t \<noteq> []"
  by (induction t) (auto split: list.splits)

lemma hd_split_on: "hd (split_on d t) = takeWhile (\<lambda>c. c \<noteq> d) t"
proof (induction t)
  case Nil
  show ?case by simp
next
  case (Cons c cs)
  then show ?case
    using split_on_nonempty [of d cs] by (auto split: list.splits)
qed

lemma split_on_no_delimiter: "d \<notin> set t \<Longrightarrow> split_on d t = [t]"
  by (induction t) (auto split: list.splits)

section \<open>What the network methods leave alone\<close>

lemma refresh_response_frame:
  assumes "refresh_response H S cfg s = (s1, r)"
  shows "environment s1 = environment s" and "env_writes s1 = env_writes s"
    and "console_errors s1 = console_errors s" and "token s1 = token s"
    and "refreshToken s1 = refreshToken s"
  using assms
  by (auto simp: refresh_response_def log_request_def Let_def split: sum.splits)

lemma refreshAccessToken_frame:
  assumes "refreshAccessToken H S cfg s = (s1, r)"
  shows "environment s1 = environment s" and "env_writes s1 = env_writes s"
    and "console_errors s1 = console_errors s" and "token s1 = token s"
    and "refreshToken s1 = refreshToken s"
  using assms
  by (auto simp: refreshAccessToken_def split: sum.splits prod.splits if_splits
      dest: refresh_response_frame)

lemma retrieveNewTokens_frame:
  assumes "retrieveNewTokens H S cfg s = (s1, r)"
  shows "environment s1 = environment s" and "env_writes s1 = env_writes s"
    and "console_errors s1 = console_errors s" and "token s1 = token s"
    and "refreshToken s1 = refreshToken s"
  using assms
  by (auto simp: retrieveNewTokens_def log_request_def Let_def split: sum.splits)

lemma isValidTokenHeader_returns: "\<exists>b. isValidTokenHeader H s = Inr b"
  by (cases "isValidTokenHeader_try H s") (auto simp: isValidTokenHeader_def)

lemma request_fresh_tokens_writes:
  assumes "request_fresh_tokens H S cfg s = (s', r)"
  shows "(\<exists>e. r = Inl e \<and> env_writes s' = env_writes s \<and> environment s' = environment s) \<or>
         (\<exists>a b. r = Inr a \<and> env_writes s' = env_writes s @ [(''token'', a), (''refresh_token'', b)]
            \<and> environment s' = (environment s)(''token'' \<mapsto> a, ''refresh_token'' \<mapsto> b))"
proof -
  obtain s1 r1 where run: "retrieveNewTokens H S cfg s = (s1, r1)"
    by (cases "retrieveNewTokens H S cfg s")
  note fr = retrieveNewTokens_frame [OF run]
  show ?thesis
  proof (cases r1)
    case (Inl e)
    with run assms fr show ?thesis
      by (auto simp: request_fresh_tokens_def)
  next
    case (Inr tokens)
    with run assms fr show ?thesis
      by (cases tokens) (auto simp: request_fresh_tokens_def environment_set_def Let_def)
  qed
qed

lemma getAccessToken_writes:
  assumes "getAccessToken H S cfg s = (s', r)"
  shows "(env_writes s' = env_writes s \<and> environment s' = environment s) \<or>
         (\<exists>a. env_writes s' = env_writes s @ [(''token'', a)]
            \<and> environment s' = (environment s)(''token'' \<mapsto> a)) \<or>
         (\<exists>a b. env_writes s' = env_writes s @ [(''token'', a), (''refresh_token'', b)]
            \<and> environment s' = (environment s)(''token'' \<mapsto> a, ''refresh_token'' \<mapsto> b))"
proof (cases "cached_token_usable H s")
  case (Inl e)
  with assms show ?thesis by (simp add: getAccessToken_def)
next
  case (Inr usable)
  show ?thesis
  proof (cases usable)
    case True
    with Inr assms show ?thesis by (simp add: getAccessToken_def)
  next
    case False
    note miss = Inr False
    show ?thesis
    proof (cases "truthy (refreshToken s)")
      case no_refresh: False
      with miss assms have "request_fresh_tokens H S cfg s = (s', r)"
        by (simp add: getAccessToken_def)
      from request_fresh_tokens_writes [OF this] show ?thesis by auto
    next
      case has_refresh: True
      obtain s1 r1 where ref: "refreshAccessToken H S cfg s = (s1, r1)"
        by (cases "refreshAccessToken H S cfg s")
      note fr = refreshAccessToken_frame [OF ref]
      show ?thesis
      proof (cases r1)
        case (Inr new_token)
        with miss has_refresh ref assms fr show ?thesis
          by (auto simp: getAccessToken_def environment_set_def Let_def)
      next
        case (Inl e)
        with miss has_refresh ref assms
        have "request_fresh_tokens H S cfg
                (console_error ''Failed to refresh access token:'' e s1) = (s', r)"
          by (simp add: getAccessToken_def)
        from request_fresh_tokens_writes [OF this] fr show ?thesis
          by (auto simp: console_error_def)
      qed
    qed
  qed
qed

section \<open>The paths through getAccessToken\<close>

lemma getAccessToken_cached:
  "cached_token_usable H s = Inr True \<Longrightarrow> getAccessToken H S cfg s = (s, Inr (token s))"
  by (simp add: getAccessToken_def)

lemma getAccessToken_guard_throws:
  "cached_token_usable H s = Inl e \<Longrightarrow> getAccessToken H S cfg s = (s, Inl e)"
  by (simp add: getAccessToken_def)

lemma getAccessToken_without_refresh_token:
  "cached_token_usable H s = Inr False \<Longrightarrow> \<not> truthy (refreshToken s) \<Longrightarrow>
   getAccessToken H S cfg s = request_fresh_tokens H S cfg s"
  by (simp add: getAccessToken_def)

lemma getAccessToken_refresh_throws:
  "cached_token_usable H s = Inr False \<Longrightarrow> truthy (refreshToken s) \<Longrightarrow>
   refreshAccessToken H S cfg s = (s1, Inl e) \<Longrightarrow>
   getAccessToken H S cfg s =
     request_fresh_tokens H S cfg (console_error ''Failed to refresh access token:'' e s1)"
  by (simp add: getAccessToken_def)

lemma request_fresh_tokens_throws:
  "retrieveNewTokens H S cfg s = (s', Inl e) \<Longrightarrow> request_fresh_tokens H S cfg s = (s', Inl e)"
  by (simp add: request_fresh_tokens_def)

lemma request_fresh_tokens_returns:
  "retrieveNewTokens H S cfg s = (s1, Inr (a, b)) \<Longrightarrow>
   request_fresh_tokens H S cfg s =
     (environment_set ''refresh_token'' b
        (environment_set ''token'' a (s1\<lparr>token := a, refreshToken := b\<rparr>)), Inr a)"
  by (simp add: request_fresh_tokens_def environment_set_def Let_def)

lemma cached_token_usable_expiry_throws:
  "truthy (token s) \<Longrightarrow> isTokenExpired H s = Inl e \<Longrightarrow> cached_token_usable H s = Inl e"
  by (simp add: cached_token_usable_def)

lemma isTokenExpired_no_payload:
  "CHR ''.'' \<notin> set u \<Longrightarrow>
   isTokenExpired H (s\<lparr>token := JStr u\<rparr>) =
     Inl (TypeError ''Cannot read properties of undefined (reading replace)'')"
  by (simp add: isTokenExpired_def parseJwt_def split_on_no_delimiter)

lemma isValidTokenHeader_true_iff:
  "isValidTokenHeader H (s\<lparr>token := JStr t\<rparr>) = Inr True \<longleftrightarrow>
     (\<exists>kvs. decode_segment H (takeWhile (\<lambda>c. c \<noteq> CHR ''.'') t) = Inr (JObj kvs)
        \<and> field kvs ''typ'' = JStr ''JWT''
        \<and> (field kvs ''alg'' = JStr ''HS256'' \<or> field kvs ''alg'' = JStr ''RS256''))"
proof -
  obtain seg segs where sp: "split_on CHR ''.'' t = seg # segs"
    using split_on_nonempty [of "CHR ''.''" t] by (cases "split_on CHR ''.'' t") auto
  have seg: "takeWhile (\<lambda>c. c \<noteq> CHR ''.'') t = seg"
    using hd_split_on [of "CHR ''.''" t] sp by simp
  show ?thesis
  proof (cases "decode_segment H seg")
    case (Inl e)
    then show ?thesis
      by (simp add: isValidTokenHeader_def isValidTokenHeader_try_def sp seg)
  next
    case (Inr header)
    then show ?thesis
      by (cases header)
         (auto simp: isValidTokenHeader_def isValidTokenHeader_try_def sp seg field_def
               split: option.splits)
  qed
qed

section \<open>The raise sites, in terms of the host\<close>

lemma split_on_prefix:
  "d \<notin> set h \<Longrightarrow> split_on d (h @ d # rest) = h # split_on d rest"
  by (induction h) (auto split: list.splits)

lemma split_on_second:
  assumes "d \<notin> set h"
  shows "\<exists>segs. split_on d (h @ d # rest) = h # takeWhile (\<lambda>c. c \<noteq> d) rest # segs"
proof -
  obtain seg segs where sp: "split_on d rest = seg # segs"
    using split_on_nonempty [of d rest] by (cases "split_on d rest") auto
  with hd_split_on [of d rest] have "seg = takeWhile (\<lambda>c. c \<noteq> d) rest" by simp
  with sp assms show ?thesis by (simp add: split_on_prefix)
qed

lemma base64url_to_base64_chars:
  "base64url_to_base64 seg =
     map (\<lambda>c. if c = CHR ''-'' then CHR ''+'' else if c = CHR ''_'' then CHR ''/'' else c) seg"
  by (induction seg) (simp_all add: base64url_to_base64_def)

lemma percent_encode_chars:
  "percent_encode bytes =
     concat (map (\<lambda>c. [CHR ''%'',
                         ''0123456789abcdef'' ! ((of_char c :: nat) div 16),
                         ''0123456789abcdef'' ! ((of_char c :: nat) mod 16)]) bytes)"
proof -
  have "(of_char c :: nat) div 16 < 16" for c
    by (rule less_mult_imp_div_less) (simp add: nat_of_char_less_256)
  then have m: "((of_char c :: nat) div 16) mod 16 = (of_char c :: nat) div 16" for c
    by (rule mod_less)
  have "percent_encode_char =
      (\<lambda>c. [CHR ''%'',
            ''0123456789abcdef'' ! ((of_char c :: nat) div 16),
            ''0123456789abcdef'' ! ((of_char c :: nat) mod 16)])"
    by (rule ext) (simp only: percent_encode_char_def hex_digit_def m)
  then show ?thesis
    by (simp only: percent_encode_def)
qed

lemma decode_segment_steps:
  "decode_segment H seg =
     (case atob H (map (\<lambda>c. if c = CHR ''-'' then CHR ''+''
                              else if c = CHR ''_'' then CHR ''/'' else c) seg) of
        Inl e \<Rightarrow> Inl e
      | Inr bytes \<Rightarrow>
          (case decodeURIComponent H
                  (concat (map (\<lambda>c. [CHR ''%'',
                                      ''0123456789abcdef'' ! ((of_char c :: nat) div 16),
                                      ''0123456789abcdef'' ! ((of_char c :: nat) mod 16)]) bytes)) of
             Inl e \<Rightarrow> Inl e
           | Inr text \<Rightarrow> JSON_parse H (JStr text)))"
  by (simp add: decode_segment_def base64url_to_base64_chars percent_encode_chars
      split: sum.splits)

lemma field_is_string:
  "field kvs k = JStr x \<longleftrightarrow> map_of kvs k = Some (JStr x)"
  by (simp add: field_def split: option.splits)

lemma isValidTokenHeader_string:
  "isValidTokenHeader H (s\<lparr>token := JStr t\<rparr>) =
     Inr (\<exists>bytes text kvs.
            atob H (map (\<lambda>c. if c = CHR ''-'' then CHR ''+''
                              else if c = CHR ''_'' then CHR ''/'' else c)
                     (takeWhile (\<lambda>c. c \<noteq> CHR ''.'') t)) = Inr bytes
          \<and> decodeURIComponent H
                (concat (map (\<lambda>c. [CHR ''%'',
                                    ''0123456789abcdef'' ! ((of_char c :: nat) div 16),
                                    ''0123456789abcdef'' ! ((of_char c :: nat) mod 16)]) bytes)) = Inr text
          \<and> JSON_parse H (JStr text) = Inr (JObj kvs)
          \<and> map_of kvs ''typ'' = Some (JStr ''JWT'')
          \<and> (map_of kvs ''alg'' = Some (JStr ''HS256'') \<or> map_of kvs ''alg'' = Some (JStr ''RS256'')))"
  (is "?lhs = Inr ?spec")
proof -
  obtain b where b: "?lhs = Inr b"
    using isValidTokenHeader_returns by blast
  have "b \<longleftrightarrow> ?spec"
  proof -
    have "b \<longleftrightarrow> ?lhs = Inr True" using b by auto
    also have "\<dots> \<longleftrightarrow> ?spec"
      unfolding isValidTokenHeader_true_iff field_is_string decode_segment_steps
      by (auto split: sum.splits)
    finally show ?thesis .
  qed
  with b show ?thesis by simp
qed

lemma isValidTokenHeader_not_string:
  "\<forall>x. token s \<noteq> JStr x \<Longrightarrow> isValidTokenHeader H s = Inr False"
  by (cases "token s") (simp_all add: isValidTokenHeader_def isValidTokenHeader_try_def)

lemma isTokenExpired_payload:
  assumes "token s = JStr (h @ CHR ''.'' # rest)" and "CHR ''.'' \<notin> set h"
  shows "isTokenExpired H s =
     (case decode_segment H (takeWhile (\<lambda>c. c \<noteq> CHR ''.'') rest) of
        Inl e \<Rightarrow> Inl e
      | Inr decoded \<Rightarrow>
          (case getProp decoded ''exp'' of
             Inl e \<Rightarrow> Inl e
           | Inr exp_claim \<Rightarrow> Inr (js_less H exp_claim (of_int (Date_now H div 1000)))))"
proof -
  from split_on_second [OF assms(2), of rest] obtain segs where
    "split_on CHR ''.'' (h @ CHR ''.'' # rest) = h # takeWhile (\<lambda>c. c \<noteq> CHR ''.'') rest # segs"
    by blast
  with assms(1) show ?thesis
    by (simp add: isTokenExpired_def parseJwt_def)
qed

lemma guard_throws_propagates:
  "truthy (token s) \<Longrightarrow> isTokenExpired H s = Inl e \<Longrightarrow> getAccessToken H S cfg s = (s, Inl e)"
  by (simp add: cached_token_usable_expiry_throws getAccessToken_guard_throws)

lemma isTokenExpired_not_string:
  assumes "truthy (token s)" and "\<forall>x. token s \<noteq> JStr x"
  shows "\<exists>m. isTokenExpired H s = Inl (TypeError m)"
  using assms by (cases "token s") (simp_all add: isTokenExpired_def parseJwt_def)

lemma encode_pairs_throws:
  "i < length data \<Longrightarrow> encodeURIComponent H (snd (data ! i)) = Inl e \<Longrightarrow>
   \<forall>j<i. \<exists>x. encodeURIComponent H (snd (data ! j)) = Inr x \<Longrightarrow>
   encode_pairs H data = Inl e"
proof (induction data arbitrary: i)
  case Nil
  then show ?case by simp
next
  case (Cons kv data)
  obtain k v where kv: "kv = (k, v)" by (cases kv)
  show ?case
  proof (cases i)
    case 0
    with Cons.prems kv show ?thesis by simp
  next
    case (Suc n)
    from Cons.prems(3) Suc have "\<exists>x. encodeURIComponent H (snd ((kv # data) ! 0)) = Inr x"
      by blast
    then obtain x where x: "encodeURIComponent H v = Inr x" using kv by auto
    from Cons.prems Suc have "n < length data" "encodeURIComponent H (snd (data ! n)) = Inl e"
      by simp_all
    moreover from Cons.prems(3) Suc
    have "\<forall>j<n. \<exists>x. encodeURIComponent H (snd (data ! j)) = Inr x" by auto
    ultimately have "encode_pairs H data = Inl e" by (rule Cons.IH)
    with x kv show ?thesis by simp
  qed
qed

lemma constructRequestBody_throws:
  "i < length data \<Longrightarrow> encodeURIComponent H (snd (data ! i)) = Inl e \<Longrightarrow>
   \<forall>j<i. \<exists>x. encodeURIComponent H (snd (data ! j)) = Inr x \<Longrightarrow>
   constructRequestBody H data = Inl e"
  by (simp add: constructRequestBody_def encode_pairs_throws)

lemma filter_first:
  "i < length xs \<Longrightarrow> P (xs ! i) \<Longrightarrow> \<forall>j<i. \<not> P (xs ! j) \<Longrightarrow>
   \<exists>ys. filter P xs = xs ! i # ys"
proof (induction xs arbitrary: i)
  case Nil
  then show ?case by simp
next
  case (Cons x xs)
  show ?case
  proof (cases i)
    case 0
    with Cons.prems show ?thesis by simp
  next
    case (Suc n)
    from Cons.prems Suc have "\<not> P x" by auto
    moreover from Cons.prems Suc have "\<exists>ys. filter P xs = xs ! n # ys"
      by (intro Cons.IH) auto
    ultimately show ?thesis using Suc by simp
  qed
qed

lemma field_nth:
  assumes "distinct (map fst kvs)" and "i < length kvs"
  shows "field kvs (fst (kvs ! i)) = snd (kvs ! i)"
proof -
  from assms(2) have "(fst (kvs ! i), snd (kvs ! i)) \<in> set kvs" by simp
  with assms(1) have "map_of kvs (fst (kvs ! i)) = Some (snd (kvs ! i))" by simp
  then show ?thesis by (simp add: field_def)
qed

lemma validateConfig_first_falsy:
  assumes "distinct (map fst cfg)" and "i < length cfg"
    and "\<not> truthy (snd (cfg ! i))" and "\<forall>j<i. truthy (snd (cfg ! j))"
  shows "validateConfig cfg = Inl (Error (''Missing config value for '' @ fst (cfg ! i)))"
proof -
  let ?P = "\<lambda>key. \<not> truthy (field cfg key)"
  have "i < length (map fst cfg)" using assms(2) by simp
  moreover have "?P (map fst cfg ! i)"
    using assms by (simp add: field_nth)
  moreover have "\<forall>j<i. \<not> ?P (map fst cfg ! j)"
    using assms by (simp add: field_nth)
  ultimately obtain ys where "filter ?P (map fst cfg) = map fst cfg ! i # ys"
    using filter_first [of i "map fst cfg" ?P] by blast
  with assms(2) show ?thesis
    by (simp add: validateConfig_def)
qed

lemma config_distinct: "distinct (map fst (config S env))"
  by (simp add: config_def)

lemma preflight_missing_config:
  assumes "i < length (config S (environment w))"
    and "\<not> truthy (snd (config S (environment w) ! i))"
    and "\<forall>j<i. truthy (snd (config S (environment w) ! j))"
  shows "snd (preflight H S w) =
     Inl (Error (''Missing config value for '' @ fst (config S (environment w) ! i)))"
  using validateConfig_first_falsy [OF config_distinct assms]
  by (simp add: preflight_def)

lemma fallback_reached:
  assumes "(cached_token_usable H s = Inr False \<and> \<not> truthy (refreshToken s) \<and> s0 = s)
         \<or> (cached_token_usable H s = Inr False \<and> truthy (refreshToken s)
              \<and> refreshAccessToken H S cfg s = (s1, Inl e0)
              \<and> s0 = console_error ''Failed to refresh access token:'' e0 s1)"
  shows "getAccessToken H S cfg s = request_fresh_tokens H S cfg s0"
  using assms
  by (auto simp: getAccessToken_without_refresh_token getAccessToken_refresh_throws)

lemma retrieveNewTokens_raise_sites:
  assumes "params =
      JObj [(''client_id'', field cfg ''client_id''),
            (''state'', field cfg ''state''),
            (''scope'', field cfg ''scope''),
            (''response_type'', field cfg ''response_type''),
            (''code_challenge_method'', field cfg ''code_challenge_method''),
            (''code_challenge'', field cfg ''code_challenge'')]"
  shows
   "(explorer_oauth2Request H (requests s0) (ENDPOINTS_authorize S) params = Inl e \<longrightarrow>
       snd (request_fresh_tokens H S cfg s0) = Inl e)
    \<and> (explorer_oauth2Request H (requests s0) (ENDPOINTS_authorize S) params = Inr answer \<longrightarrow>
         (answer = JNull \<or> answer = JUndefined \<longrightarrow>
            (\<exists>m. snd (request_fresh_tokens H S cfg s0) = Inl (TypeError m)))
       \<and> (getProp answer ''code'' = Inr code
            \<and> form = [(''client_id'', field cfg ''client_id''),
                        (''tenant_id'', field cfg ''tenant_id''),
                        (''code'', code),
                        (''code_verifier'', field cfg ''code_verifier''),
                        (''grant_type'', JStr ''authorization_code''),
                        (''redirect_uri'', field cfg ''redirect_uri'')] \<longrightarrow>
            (i < length form \<and> encodeURIComponent H (snd (form ! i)) = Inl e
               \<and> (\<forall>j<i. \<exists>x. encodeURIComponent H (snd (form ! j)) = Inr x) \<longrightarrow>
               snd (request_fresh_tokens H S cfg s0) = Inl e)
          \<and> (constructRequestBody H form = Inr body \<longrightarrow>
               (explorer_fetch H (requests s0 @ [OAuth2Request (ENDPOINTS_authorize S) params])
                    (ENDPOINTS_token S) (fetch_options body) = Inl e \<longrightarrow>
                  snd (request_fresh_tokens H S cfg s0) = Inl e)
             \<and> (explorer_fetch H (requests s0 @ [OAuth2Request (ENDPOINTS_authorize S) params])
                    (ENDPOINTS_token S) (fetch_options body) = Inr response \<longrightarrow>
                  (response = JNull \<or> response = JUndefined \<longrightarrow>
                     (\<exists>m. snd (request_fresh_tokens H S cfg s0) = Inl (TypeError m)))
                \<and> (getProp response ''body'' = Inr response_body \<longrightarrow>
                     (JSON_parse H response_body = Inl e \<longrightarrow>
                        snd (request_fresh_tokens H S cfg s0) = Inl e)
                   \<and> (JSON_parse H response_body = Inr JNull
                        \<or> JSON_parse H response_body = Inr JUndefined \<longrightarrow>
                        (\<exists>m. snd (request_fresh_tokens H S cfg s0) = Inl (TypeError m))))))))"
  unfolding assms
  by (intro conjI impI; (elim conjE)?; (frule (2) constructRequestBody_throws)?)
     (auto simp: retrieveNewTokens_def request_fresh_tokens_def log_request_def Let_def)

lemma getProp_not_object:
  "\<forall>kvs. v \<noteq> JObj kvs \<Longrightarrow> v \<noteq> JNull \<Longrightarrow> v \<noteq> JUndefined \<Longrightarrow> getProp v k = Inr JUndefined"
  by (cases v) simp_all

lemma isTokenExpired_no_dot:
  "token s = JStr u \<Longrightarrow> CHR ''.'' \<notin> set u \<Longrightarrow>
   isTokenExpired H s = Inl (TypeError ''Cannot read properties of undefined (reading replace)'')"
  by (simp add: isTokenExpired_def parseJwt_def split_on_no_delimiter)

lemma isValidTokenHeader_token:
  "token s = JStr t \<Longrightarrow> isValidTokenHeader H s = isValidTokenHeader H (s\<lparr>token := JStr t\<rparr>)"
  by (simp add: isValidTokenHeader_def isValidTokenHeader_try_def)

lemma guard_raise_sites:
  assumes "to_base64 =
      (\<lambda>c. if c = CHR ''-'' then CHR ''+'' else if c = CHR ''_'' then CHR ''/'' else c)"
    and "percent =
      (\<lambda>decoded. concat (map (\<lambda>c. [CHR ''%'',
                                       ''0123456789abcdef'' ! ((of_char c :: nat) div 16),
                                       ''0123456789abcdef'' ! ((of_char c :: nat) mod 16)])
                              decoded))"
  shows
   "token s = JStr (h @ CHR ''.'' # rest) \<and> CHR ''.'' \<notin> set h
      \<and> payload = map to_base64 (takeWhile (\<lambda>c. c \<noteq> CHR ''.'') rest) \<longrightarrow>
       (atob H payload = Inl e \<longrightarrow> getAccessToken H S cfg s = (s, Inl e))
     \<and> (atob H payload = Inr decoded \<longrightarrow>
          (decodeURIComponent H (percent decoded) = Inl e \<longrightarrow>
             getAccessToken H S cfg s = (s, Inl e))
        \<and> (decodeURIComponent H (percent decoded) = Inr json \<longrightarrow>
             (JSON_parse H (JStr json) = Inl e \<longrightarrow> getAccessToken H S cfg s = (s, Inl e))
           \<and> (JSON_parse H (JStr json) = Inr JNull \<or> JSON_parse H (JStr json) = Inr JUndefined \<longrightarrow>
                (\<exists>m. getAccessToken H S cfg s = (s, Inl (TypeError m))))))"
proof (intro impI, elim conjE)
  assume tok: "token s = JStr (h @ CHR ''.'' # rest)" and h: "CHR ''.'' \<notin> set h"
    and payload: "payload = map to_base64 (takeWhile (\<lambda>c. c \<noteq> CHR ''.'') rest)"
  note expiry = isTokenExpired_payload [OF tok h, of H, unfolded decode_segment_steps,
      folded assms, folded payload]
  have tr: "truthy (token s)" using tok by simp
  have out: "getAccessToken H S cfg s = (s, Inl x)" if "isTokenExpired H s = Inl x" for x
    using tr that by (rule guard_throws_propagates)
  have out': "\<exists>m. getAccessToken H S cfg s = (s, Inl (TypeError m))"
    if "isTokenExpired H s = Inl (TypeError m)" for m
    using out [OF that] by blast
  show "(atob H payload = Inl e \<longrightarrow> getAccessToken H S cfg s = (s, Inl e))
     \<and> (atob H payload = Inr decoded \<longrightarrow>
          (decodeURIComponent H (percent decoded) = Inl e \<longrightarrow>
             getAccessToken H S cfg s = (s, Inl e))
        \<and> (decodeURIComponent H (percent decoded) = Inr json \<longrightarrow>
             (JSON_parse H (JStr json) = Inl e \<longrightarrow> getAccessToken H S cfg s = (s, Inl e))
           \<and> (JSON_parse H (JStr json) = Inr JNull \<or> JSON_parse H (JStr json) = Inr JUndefined \<longrightarrow>
                (\<exists>m. getAccessToken H S cfg s = (s, Inl (TypeError m))))))"
    by (intro conjI impI; (erule disjE)?; (rule out | rule out'); simp add: expiry assms(2))
qed

lemma header_catch_sites:
  assumes "to_base64 =
      (\<lambda>c. if c = CHR ''-'' then CHR ''+'' else if c = CHR ''_'' then CHR ''/'' else c)"
    and "percent =
      (\<lambda>decoded. concat (map (\<lambda>c. [CHR ''%'',
                                       ''0123456789abcdef'' ! ((of_char c :: nat) div 16),
                                       ''0123456789abcdef'' ! ((of_char c :: nat) mod 16)])
                              decoded))"
  shows
   "token s = JStr t \<and> header = map to_base64 (takeWhile (\<lambda>c. c \<noteq> CHR ''.'') t) \<longrightarrow>
       (atob H header = Inl e \<longrightarrow> isValidTokenHeader H s = Inr False)
     \<and> (atob H header = Inr decoded \<longrightarrow>
          (decodeURIComponent H (percent decoded) = Inl e \<longrightarrow>
             isValidTokenHeader H s = Inr False)
        \<and> (decodeURIComponent H (percent decoded) = Inr json \<longrightarrow>
             (JSON_parse H (JStr json) = Inl e \<longrightarrow> isValidTokenHeader H s = Inr False)
           \<and> (JSON_parse H (JStr json) = Inr JNull \<longrightarrow> isValidTokenHeader H s = Inr False)))"
proof (intro impI, elim conjE)
  assume tok: "token s = JStr t"
    and header: "header = map to_base64 (takeWhile (\<lambda>c. c \<noteq> CHR ''.'') t)"
  note exact = isValidTokenHeader_string [where H = H and s = s and t = t,
      folded isValidTokenHeader_token [OF tok], folded assms(1), folded header]
  show "(atob H header = Inl e \<longrightarrow> isValidTokenHeader H s = Inr False)
     \<and> (atob H header = Inr decoded \<longrightarrow>
          (decodeURIComponent H (percent decoded) = Inl e \<longrightarrow>
             isValidTokenHeader H s = Inr False)
        \<and> (decodeURIComponent H (percent decoded) = Inr json \<longrightarrow>
             (JSON_parse H (JStr json) = Inl e \<longrightarrow> isValidTokenHeader H s = Inr False)
           \<and> (JSON_parse H (JStr json) = Inr JNull \<longrightarrow> isValidTokenHeader H s = Inr False)))"
    unfolding exact assms(2) by auto
qed

lemma guard_not_string:
  "truthy (token s) \<and> (\<forall>x. token s \<noteq> JStr x) \<longrightarrow>
     (\<exists>m. getAccessToken H S cfg s = (s, Inl (TypeError m)))"
  using isTokenExpired_not_string [of s H] guard_throws_propagates [of s H _ S cfg]
  by blast

lemma guard_no_dot:
  "token s = JStr u \<and> u \<noteq> [] \<and> CHR ''.'' \<notin> set u \<longrightarrow>
     (\<exists>m. getAccessToken H S cfg s = (s, Inl (TypeError m)))"
proof (intro impI, elim conjE)
  assume tok: "token s = JStr u" and "u \<noteq> []" and dot: "CHR ''.'' \<notin> set u"
  then have "truthy (token s)" by simp
  from guard_throws_propagates [OF this isTokenExpired_no_dot [OF tok dot]]
  show "\<exists>m. getAccessToken H S cfg s = (s, Inl (TypeError m))" by blast
qed

section \<open>Evaluations on the demonstration hosts\<close>

lemma demo_valid_token:
  "truthy (token (demo_state (JStr valid_jwt) (JStr ''0.AXoA'')))"
  "isTokenExpired offline_host (demo_state (JStr valid_jwt) (JStr ''0.AXoA'')) = Inr False"
  "isValidTokenHeader offline_host (demo_state (JStr valid_jwt) (JStr ''0.AXoA'')) = Inr True"
  "token (demo_state (JStr valid_jwt) (JStr ''0.AXoA'')) = JStr valid_jwt"
  "requests (demo_state (JStr valid_jwt) (JStr ''0.AXoA'')) = []"
  "env_writes (demo_state (JStr valid_jwt) (JStr ''0.AXoA'')) = []"
  by code_simp+

lemma demo_expired_offline:
  "cached_token_usable offline_host (demo_state (JStr expired_jwt) (JStr ''0.AXoA'')) = Inr False"
  "truthy (refreshToken (demo_state (JStr expired_jwt) (JStr ''0.AXoA'')))"
  "snd (refreshAccessToken offline_host demo_settings demo_config
         (demo_state (JStr expired_jwt) (JStr ''0.AXoA''))) = Inl (TypeError ''Failed to fetch'')"
  "snd (refresh_response offline_host demo_settings demo_config
         (demo_state (JStr expired_jwt) (JStr ''0.AXoA''))) = Inl (TypeError ''Failed to fetch'')"
  "snd (getAccessToken offline_host demo_settings demo_config
         (demo_state (JStr expired_jwt) (JStr ''0.AXoA''))) =
     Inl (Error ''Authorization window closed'')"
  by code_simp+

lemma demo_expired_reauthorising:
  "cached_token_usable reauthorising_host (demo_state (JStr expired_jwt) (JStr ''0.AXoA'')) = Inr False"
  "snd (refreshAccessToken reauthorising_host demo_settings demo_config
         (demo_state (JStr expired_jwt) (JStr ''0.AXoA''))) =
     Inl (Error ''Unable to refresh access token. Refresh token may be expired.'')"
  "snd (retrieveNewTokens reauthorising_host demo_settings demo_config
         (console_error ''Failed to refresh access token:''
            (Error ''Unable to refresh access token. Refresh token may be expired.'')
            (fst (refreshAccessToken reauthorising_host demo_settings demo_config
                    (demo_state (JStr expired_jwt) (JStr ''0.AXoA'')))))) =
     Inr (JStr valid_jwt, JStr ''0.AXoB'')"
  "console_errors (demo_state (JStr expired_jwt) (JStr ''0.AXoA'')) = []"
  "env_writes (demo_state (JStr expired_jwt) (JStr ''0.AXoA'')) = []"
  by code_simp+

lemma demo_bad_header:
  "isValidTokenHeader_try refreshing_host (demo_state (JStr bad_header_jwt) (JStr ''0.AXoA'')) =
     Inl (DOMException ''InvalidCharacterError'')"
  "snd (getAccessToken refreshing_host demo_settings demo_config
         (demo_state (JStr bad_header_jwt) (JStr ''0.AXoA''))) = Inr (JStr valid_jwt)"
  "requests (fst (getAccessToken refreshing_host demo_settings demo_config
         (demo_state (JStr bad_header_jwt) (JStr ''0.AXoA'')))) =
     [Fetch ''https://login.microsoftonline.com/contoso.onmicrosoft.com/oauth2/v2.0/token''
        (fetch_options ''client_id=6731de76-14a6-49ae-97bc-6eba6914391e&grant_type=refresh_token&refresh_token=0.AXoA'')]"
  by code_simp+

lemma demo_null_body:
  "snd (refresh_response null_body_host demo_settings demo_config
         (demo_state (JStr expired_jwt) (JStr ''0.AXoA''))) = Inr JNull"
  "snd (refreshAccessToken null_body_host demo_settings demo_config
         (demo_state (JStr expired_jwt) (JStr ''0.AXoA''))) =
     Inl (TypeError ''Cannot read properties of null (reading access_token)'')"
  by code_simp+

lemma demo_signed_out:
  "cached_token_usable offline_host (demo_state JUndefined JUndefined) = Inr False"
  "\<not> truthy (refreshToken (demo_state JUndefined JUndefined))"
  "snd (retrieveNewTokens offline_host demo_settings demo_config
         (demo_state JUndefined JUndefined)) = Inl (Error ''Authorization window closed'')"
  "snd (retrieveNewTokens offline_host demo_settings demo_config
         (console_error ''Failed to refresh access token:'' (TypeError ''Failed to fetch'')
            (fst (refreshAccessToken offline_host demo_settings demo_config
                    (demo_state (JStr expired_jwt) (JStr ''0.AXoA'')))))) =
     Inl (Error ''Authorization window closed'')"
  by code_simp+

lemma demo_signed_out_token:
  "token (demo_state JUndefined JUndefined) = JUndefined"
  by code_simp

lemma demo_rs256_header:
  "atob offline_host
     (map (\<lambda>c. if c = CHR ''-'' then CHR ''+'' else if c = CHR ''_'' then CHR ''/'' else c)
        (takeWhile (\<lambda>c. c \<noteq> CHR ''.'') rs256_jwt)) = Inr jwt_header_kid_text"
  "decodeURIComponent offline_host
     (concat (map (\<lambda>c. [CHR ''%'',
                         ''0123456789abcdef'' ! ((of_char c :: nat) div 16),
                         ''0123456789abcdef'' ! ((of_char c :: nat) mod 16)])
                jwt_header_kid_text)) = Inr jwt_header_kid_text"
  "JSON_parse offline_host (JStr jwt_header_kid_text) =
     Inr (JObj [(''typ'', JStr ''JWT''), (''alg'', JStr ''RS256''), (''kid'', JStr ''a?>b~?'')])"
  by code_simp+

lemma demo_not_base64:
  "atob offline_host
     (map (\<lambda>c. if c = CHR ''-'' then CHR ''+'' else if c = CHR ''_'' then CHR ''/'' else c)
        (takeWhile (\<lambda>c. c \<noteq> CHR ''.'') ''not-a-jwt'')) =
     Inl (DOMException ''InvalidCharacterError'')"
  "atob refreshing_host
     (map (\<lambda>c. if c = CHR ''-'' then CHR ''+'' else if c = CHR ''_'' then CHR ''/'' else c)
        (takeWhile (\<lambda>c. c \<noteq> CHR ''.'') bad_header_jwt)) =
     Inl (DOMException ''InvalidCharacterError'')"
  "atob offline_host
     (map (\<lambda>c. if c = CHR ''-'' then CHR ''+'' else if c = CHR ''_'' then CHR ''/'' else c)
        (takeWhile (\<lambda>c. c \<noteq> CHR ''.'') ''!!!.c2ln'')) =
     Inl (DOMException ''InvalidCharacterError'')"
  by code_simp+

lemma demo_missing_code_challenge:
  "6 < length (config demo_settings Map.empty)"
  "\<not> truthy (snd (config demo_settings Map.empty ! 6))"
  "fst (config demo_settings Map.empty ! 6) = ''code_challenge''"
  "truthy (snd (config demo_settings Map.empty ! 0))"
  "truthy (snd (config demo_settings Map.empty ! 1))"
  "truthy (snd (config demo_settings Map.empty ! 2))"
  "truthy (snd (config demo_settings Map.empty ! 3))"
  "truthy (snd (config demo_settings Map.empty ! 4))"
  "truthy (snd (config demo_settings Map.empty ! 5))"
  by code_simp+

lemma demo_bad_payload:
  "token (demo_state (JStr bad_payload_jwt) (JStr ''0.AXoA'')) =
     JStr (''eyJ0eXAiOiJKV1QiLCJhbGciOiJIUzI1NiJ9'' @ CHR ''.'' # ''!!!.c2ln'')"
  "token (demo_state (JStr bad_header_jwt) (JStr ''0.AXoA'')) = JStr bad_header_jwt"
  by code_simp+

lemma demo_html_body:
  "cached_token_usable html_body_host (demo_state JUndefined JUndefined) = Inr False"
  "constructRequestBody html_body_host
     [(''client_id'', field demo_config ''client_id''),
      (''tenant_id'', field demo_config ''tenant_id''),
      (''code'', JStr ''M0ab92efe''),
      (''code_verifier'', field demo_config ''code_verifier''),
      (''grant_type'', JStr ''authorization_code''),
      (''redirect_uri'', field demo_config ''redirect_uri'')] =
     Inr ''client_id=6731de76-14a6-49ae-97bc-6eba6914391e&tenant_id=72f988bf-86f1-41af-91ab-2d7cd011db47&code=M0ab92efe&code_verifier=dBjftJeZ4CVP-mB92K27uhbUJU1p1r_wW1gFWFOEjXk&grant_type=authorization_code&redirect_uri=https%3A%2F%2Fstudio.apollographql.com%2Fexplorer-oauth2''"
  "JSON_parse html_body_host (JStr ''<html>Service unavailable</html>'') =
     Inl (SyntaxError ''Unexpected token'')"
  by code_simp+

lemma demo_network:
  "explorer_oauth2Request offline_host history url params =
     Inl (Error ''Authorization window closed'')"
  "explorer_fetch offline_host history url options = Inl (TypeError ''Failed to fetch'')"
  "explorer_oauth2Request html_body_host history url params =
     Inr (JObj [(''code'', JStr ''M0ab92efe'')])"
  "explorer_fetch html_body_host history url options =
     Inr (JObj [(''body'', JStr ''<html>Service unavailable</html>'')])"
  "explorer_fetch null_body_host history url options = Inr (JObj [(''body'', JStr ''null'')])"
  "explorer_fetch refreshing_host history url options =
     Inr (JObj [(''body'', JStr refreshed_body_text)])"
  "explorer_fetch reauthorising_host [] url options =
     Inr (JObj [(''body'', JStr invalid_grant_body_text)])"
  by (simp_all add: offline_host_def html_body_host_def null_body_host_def refreshing_host_def
      reauthorising_host_def)

lemma demo_refresh_form:
  "encodeURIComponent offline_host (field demo_config ''client_id'') =
     Inr ''6731de76-14a6-49ae-97bc-6eba6914391e''"
  "encodeURIComponent offline_host (JStr ''refresh_token'') = Inr ''refresh_token''"
  "encodeURIComponent offline_host (refreshToken (demo_state (JStr expired_jwt) (JStr ''0.AXoA''))) =
     Inr ''0.AXoA''"
  "requests (demo_state (JStr expired_jwt) (JStr ''0.AXoA'')) = []"
  "JSON_parse offline_host (JStr ''null'') = Inr JNull"
  "JSON_parse offline_host (JStr refreshed_body_text) = Inr (JObj [(''access_token'', JStr valid_jwt)])"
  "JSON_parse offline_host (JStr invalid_grant_body_text) =
     Inr (JObj [(''error'', JStr ''invalid_grant'')])"
  "JSON_parse offline_host (JStr ''<html>Service unavailable</html>'') =
     Inl (SyntaxError ''Unexpected token'')"
  by code_simp+

lemma demo_same_builtins:
  "encodeURIComponent null_body_host = encodeURIComponent offline_host"
  "encodeURIComponent html_body_host = encodeURIComponent offline_host"
  "encodeURIComponent refreshing_host = encodeURIComponent offline_host"
  "encodeURIComponent reauthorising_host = encodeURIComponent offline_host"
  "JSON_parse null_body_host = JSON_parse offline_host"
  "JSON_parse html_body_host = JSON_parse offline_host"
  "JSON_parse refreshing_host = JSON_parse offline_host"
  "JSON_parse reauthorising_host = JSON_parse offline_host"
  by (simp_all add: html_body_host_def null_body_host_def refreshing_host_def
      reauthorising_host_def)

section \<open>The claims about the token helper\<close>

text \<open>
  C1, as amended. When the cached token is not usable, a refresh token is present and
  \<open>refreshAccessToken\<close> throws \<open>e\<close>, the error is caught and logged with
  \<open>console.error\<close>, and \<open>getAccessToken\<close> goes on to \<open>retrieveNewTokens\<close>. The refresh
  error is not propagated: what \<open>getAccessToken\<close> does is what the fallback does. If
  \<open>retrieveNewTokens\<close> returns, its access token is stored, written to the environment
  and returned; if \<open>retrieveNewTokens\<close> throws, that error reaches the caller.
\<close>

theorem refresh_failure_falls_back:
  assumes "cached_token_usable H s = Inr False"
    and "truthy (refreshToken s)"
    and "refreshAccessToken H S cfg s = (s1, Inl e)"
  shows "console_errors (fst (getAccessToken H S cfg s)) =
           console_errors s @ [(''Failed to refresh access token:'', e)]
       \<and> (case retrieveNewTokens H S cfg
                 (console_error ''Failed to refresh access token:'' e s1) of
            (s2, Inl e') \<Rightarrow> getAccessToken H S cfg s = (s2, Inl e')
          | (s2, Inr (access_token, refresh_token)) \<Rightarrow>
              snd (getAccessToken H S cfg s) = Inr access_token
              \<and> token (fst (getAccessToken H S cfg s)) = access_token
              \<and> refreshToken (fst (getAccessToken H S cfg s)) = refresh_token
              \<and> env_writes (fst (getAccessToken H S cfg s)) =
                  env_writes s @ [(''token'', access_token), (''refresh_token'', refresh_token)])"
proof -
  let ?logged = "console_error ''Failed to refresh access token:'' e s1"
  have run: "getAccessToken H S cfg s = request_fresh_tokens H S cfg ?logged"
    using assms by (rule getAccessToken_refresh_throws)
  note fr = refreshAccessToken_frame [OF assms(3)]
  obtain s2 r2 where new: "retrieveNewTokens H S cfg ?logged = (s2, r2)"
    by (cases "retrieveNewTokens H S cfg ?logged")
  note fn = retrieveNewTokens_frame [OF new]
  show ?thesis
  proof (cases r2)
    case (Inl e')
    with new have "request_fresh_tokens H S cfg ?logged = (s2, Inl e')"
      by (simp add: request_fresh_tokens_throws)
    with run new Inl fn fr show ?thesis
      by (simp add: console_error_def)
  next
    case (Inr tokens)
    obtain a b where tokens: "tokens = (a, b)" by (cases tokens)
    with new Inr have "request_fresh_tokens H S cfg ?logged =
        (environment_set ''refresh_token'' b
           (environment_set ''token'' a (s2\<lparr>token := a, refreshToken := b\<rparr>)), Inr a)"
      by (simp add: request_fresh_tokens_returns)
    with run new Inr tokens fn fr show ?thesis
      by (simp add: console_error_def environment_set_def)
  qed
qed

theorem refresh_failure_falls_back_witness:
  "cached_token_usable reauthorising_host (demo_state (JStr expired_jwt) (JStr ''0.AXoA'')) = Inr False
   \<and> truthy (refreshToken (demo_state (JStr expired_jwt) (JStr ''0.AXoA'')))
   \<and> snd (refreshAccessToken reauthorising_host demo_settings demo_config
         (demo_state (JStr expired_jwt) (JStr ''0.AXoA''))) =
       Inl (Error ''Unable to refresh access token. Refresh token may be expired.'')
   \<and> console_errors (fst (getAccessToken reauthorising_host demo_settings demo_config
         (demo_state (JStr expired_jwt) (JStr ''0.AXoA'')))) =
       [(''Failed to refresh access token:'',
         Error ''Unable to refresh access token. Refresh token may be expired.'')]
   \<and> snd (getAccessToken reauthorising_host demo_settings demo_config
         (demo_state (JStr expired_jwt) (JStr ''0.AXoA''))) = Inr (JStr valid_jwt)
   \<and> env_writes (fst (getAccessToken reauthorising_host demo_settings demo_config
         (demo_state (JStr expired_jwt) (JStr ''0.AXoA'')))) =
       [(''token'', JStr valid_jwt), (''refresh_token'', JStr ''0.AXoB'')]"
proof -
  let ?s = "demo_state (JStr expired_jwt) (JStr ''0.AXoA'')"
  let ?e = "Error ''Unable to refresh access token. Refresh token may be expired.''"
  let ?s1 = "fst (refreshAccessToken reauthorising_host demo_settings demo_config ?s)"
  let ?logged = "console_error ''Failed to refresh access token:'' ?e ?s1"
  have h1: "cached_token_usable reauthorising_host ?s = Inr False"
    by (rule demo_expired_reauthorising)
  have h2: "truthy (refreshToken ?s)"
    by (rule demo_expired_offline)
  have h3: "refreshAccessToken reauthorising_host demo_settings demo_config ?s = (?s1, Inl ?e)"
    using demo_expired_reauthorising(2) by (simp add: prod_eq_iff)
  from refresh_failure_falls_back [OF h1 h2 h3] h1 h2 demo_expired_reauthorising
  show ?thesis
    by (simp add: case_prod_beta)
qed

text \<open>
  C1, as the claim states it, fails: with the network down the refresh throws, and so
  does the fallback when the user closes the sign-in window. No access token is returned.
\<close>

theorem refresh_failure_no_token_counterexample:
  "cached_token_usable offline_host (demo_state (JStr expired_jwt) (JStr ''0.AXoA'')) = Inr False
   \<and> truthy (refreshToken (demo_state (JStr expired_jwt) (JStr ''0.AXoA'')))
   \<and> snd (refreshAccessToken offline_host demo_settings demo_config
         (demo_state (JStr expired_jwt) (JStr ''0.AXoA''))) = Inl (TypeError ''Failed to fetch'')
   \<and> snd (getAccessToken offline_host demo_settings demo_config
         (demo_state (JStr expired_jwt) (JStr ''0.AXoA''))) =
       Inl (Error ''Authorization window closed'')"
  using demo_expired_offline by simp

text \<open>
  C4. One call of \<open>getAccessToken\<close> appends at most two writes to the environment, all
  of them to the keys \<open>token\<close> and \<open>refresh_token\<close>, and every other key of the
  environment keeps its value, whatever the host answers and whether the call returns or
  throws.
\<close>

theorem getAccessToken_env_writes:
  "\<exists>ws. env_writes (fst (getAccessToken H S cfg s)) = env_writes s @ ws
        \<and> length ws \<le> 2
        \<and> set (map fst ws) \<subseteq> {''token'', ''refresh_token''}
        \<and> (\<forall>k. k \<noteq> ''token'' \<and> k \<noteq> ''refresh_token'' \<longrightarrow>
              environment (fst (getAccessToken H S cfg s)) k = environment s k)"
proof -
  obtain s' r where run: "getAccessToken H S cfg s = (s', r)"
    by (cases "getAccessToken H S cfg s")
  from getAccessToken_writes [OF run] show ?thesis
    unfolding run by auto
qed

theorem getAccessToken_env_writes_witness:
  "env_writes (fst (getAccessToken reauthorising_host demo_settings demo_config
      (demo_state (JStr expired_jwt) (JStr ''0.AXoA'')))) =
     [(''token'', JStr valid_jwt), (''refresh_token'', JStr ''0.AXoB'')]
   \<and> environment (fst (getAccessToken reauthorising_host demo_settings demo_config
        (demo_state (JStr expired_jwt) (JStr ''0.AXoA'')))) ''code_verifier'' =
       Some (JStr ''dBjftJeZ4CVP-mB92K27uhbUJU1p1r_wW1gFWFOEjXk'')"
proof -
  let ?s = "demo_state (JStr expired_jwt) (JStr ''0.AXoA'')"
  let ?s' = "fst (getAccessToken reauthorising_host demo_settings demo_config ?s)"
  have writes: "env_writes ?s' = [(''token'', JStr valid_jwt), (''refresh_token'', JStr ''0.AXoB'')]"
    by code_simp
  have before: "environment ?s ''code_verifier'' =
      Some (JStr ''dBjftJeZ4CVP-mB92K27uhbUJU1p1r_wW1gFWFOEjXk'')"
    by code_simp
  from getAccessToken_env_writes [of reauthorising_host demo_settings demo_config ?s]
  have "environment ?s' ''code_verifier'' = environment ?s ''code_verifier''"
    by auto
  with writes before show ?thesis by simp
qed

text \<open>
  C8. When the stored access token is truthy, \<open>isTokenExpired\<close> returns \<open>false\<close> and
  \<open>isValidTokenHeader\<close> returns \<open>true\<close>, \<open>getAccessToken\<close> returns that token and
  leaves everything as it was: no request is issued and nothing is written to the
  environment.
\<close>

theorem cached_token_returned:
  assumes "truthy (token s)"
    and "isTokenExpired H s = Inr False"
    and "isValidTokenHeader H s = Inr True"
  shows "getAccessToken H S cfg s = (s, Inr (token s))
       \<and> requests (fst (getAccessToken H S cfg s)) = requests s
       \<and> env_writes (fst (getAccessToken H S cfg s)) = env_writes s
       \<and> environment (fst (getAccessToken H S cfg s)) = environment s"
proof -
  from assms have "cached_token_usable H s = Inr True"
    by (simp add: cached_token_usable_def)
  then have "getAccessToken H S cfg s = (s, Inr (token s))"
    by (rule getAccessToken_cached)
  then show ?thesis by simp
qed

theorem cached_token_returned_witness:
  "truthy (token (demo_state (JStr valid_jwt) (JStr ''0.AXoA'')))
   \<and> isTokenExpired offline_host (demo_state (JStr valid_jwt) (JStr ''0.AXoA'')) = Inr False
   \<and> isValidTokenHeader offline_host (demo_state (JStr valid_jwt) (JStr ''0.AXoA'')) = Inr True
   \<and> snd (getAccessToken offline_host demo_settings demo_config
        (demo_state (JStr valid_jwt) (JStr ''0.AXoA''))) = Inr (JStr valid_jwt)
   \<and> requests (fst (getAccessToken offline_host demo_settings demo_config
        (demo_state (JStr valid_jwt) (JStr ''0.AXoA'')))) = []
   \<and> env_writes (fst (getAccessToken offline_host demo_settings demo_config
        (demo_state (JStr valid_jwt) (JStr ''0.AXoA'')))) = []"
  using cached_token_returned [OF demo_valid_token(1) demo_valid_token(2) demo_valid_token(3),
      of demo_settings demo_config] demo_valid_token
  by simp

text \<open>
  C9. \<open>isValidTokenHeader\<close> always returns a boolean, whatever the token is. On a string
  token it returns \<open>true\<close> exactly when the text before the first dot, with \<open>-\<close>
  replaced by \<open>+\<close> and \<open>_\<close> by \<open>/\<close>, is accepted by \<open>atob\<close>, the percent-encoding
  of the resulting characters (\<open>%\<close> and two hexadecimal digits each) is accepted by
  \<open>decodeURIComponent\<close>, and \<open>JSON.parse\<close> of that text is an object whose \<open>typ\<close> is
  \<open>JWT\<close> and whose \<open>alg\<close> is \<open>HS256\<close> or \<open>RS256\<close>. It returns \<open>false\<close> when \<open>atob\<close>,
  \<open>decodeURIComponent\<close> or \<open>JSON.parse\<close> throws, and when the token is not a string.
  \<open>isTokenExpired\<close> has no such protection: on a token without a dot it throws a
  \<open>TypeError\<close>, and when the token is not empty \<open>getAccessToken\<close> passes that error on
  to its caller.
\<close>

theorem isValidTokenHeader_total:
  assumes "segment =
      map (\<lambda>c. if c = CHR ''-'' then CHR ''+'' else if c = CHR ''_'' then CHR ''/'' else c)
        (takeWhile (\<lambda>c. c \<noteq> CHR ''.'') t)"
    and "percent =
      (\<lambda>decoded. concat (map (\<lambda>c. [CHR ''%'',
                                       ''0123456789abcdef'' ! ((of_char c :: nat) div 16),
                                       ''0123456789abcdef'' ! ((of_char c :: nat) mod 16)])
                              decoded))"
  shows "(\<exists>b. isValidTokenHeader H s = Inr b)
   \<and> isValidTokenHeader H (s\<lparr>token := JStr t\<rparr>) =
       Inr (\<exists>bytes text kvs.
              atob H segment = Inr bytes
            \<and> decodeURIComponent H (percent bytes) = Inr text
            \<and> JSON_parse H (JStr text) = Inr (JObj kvs)
            \<and> map_of kvs ''typ'' = Some (JStr ''JWT'')
            \<and> (map_of kvs ''alg'' = Some (JStr ''HS256'')
                 \<or> map_of kvs ''alg'' = Some (JStr ''RS256'')))
   \<and> (atob H segment = Inl e \<longrightarrow> isValidTokenHeader H (s\<lparr>token := JStr t\<rparr>) = Inr False)
   \<and> (atob H segment = Inr decoded \<and> decodeURIComponent H (percent decoded) = Inl e \<longrightarrow>
        isValidTokenHeader H (s\<lparr>token := JStr t\<rparr>) = Inr False)
   \<and> (atob H segment = Inr decoded \<and> decodeURIComponent H (percent decoded) = Inr json
        \<and> JSON_parse H (JStr json) = Inl e \<longrightarrow>
        isValidTokenHeader H (s\<lparr>token := JStr t\<rparr>) = Inr False)
   \<and> ((\<forall>x. token s \<noteq> JStr x) \<longrightarrow> isValidTokenHeader H s = Inr False)
   \<and> (CHR ''.'' \<notin> set u \<longrightarrow>
        isTokenExpired H (s\<lparr>token := JStr u\<rparr>) =
          Inl (TypeError ''Cannot read properties of undefined (reading replace)''))
   \<and> (CHR ''.'' \<notin> set u \<and> u \<noteq> [] \<longrightarrow>
        getAccessToken H S cfg (s\<lparr>token := JStr u\<rparr>) =
          (s\<lparr>token := JStr u\<rparr>,
           Inl (TypeError ''Cannot read properties of undefined (reading replace)'')))"
proof -
  have total: "\<exists>b. isValidTokenHeader H s = Inr b"
    by (rule isValidTokenHeader_returns)
  note exact = isValidTokenHeader_string [where H = H and s = s and t = t]
  have other: "(\<forall>x. token s \<noteq> JStr x) \<longrightarrow> isValidTokenHeader H s = Inr False"
    by (simp add: isValidTokenHeader_not_string)
  have expiry: "CHR ''.'' \<notin> set u \<longrightarrow>
        isTokenExpired H (s\<lparr>token := JStr u\<rparr>) =
          Inl (TypeError ''Cannot read properties of undefined (reading replace)'')"
    by (simp add: isTokenExpired_no_payload)
  have through: "CHR ''.'' \<notin> set u \<and> u \<noteq> [] \<longrightarrow>
        getAccessToken H S cfg (s\<lparr>token := JStr u\<rparr>) =
          (s\<lparr>token := JStr u\<rparr>,
           Inl (TypeError ''Cannot read properties of undefined (reading replace)''))"
    by (simp add: guard_throws_propagates isTokenExpired_no_payload)
  from total other expiry through show ?thesis
    unfolding assms exact by auto
qed

theorem isValidTokenHeader_total_witness:
  "isValidTokenHeader offline_host
      ((demo_state JUndefined JUndefined)\<lparr>token := JStr rs256_jwt\<rparr>) = Inr True
   \<and> isValidTokenHeader offline_host
      ((demo_state JUndefined JUndefined)\<lparr>token := JStr ''not-a-jwt''\<rparr>) = Inr False
   \<and> isValidTokenHeader offline_host (demo_state JUndefined JUndefined) = Inr False
   \<and> isTokenExpired offline_host
      ((demo_state JUndefined JUndefined)\<lparr>token := JStr ''not-a-jwt''\<rparr>) =
       Inl (TypeError ''Cannot read properties of undefined (reading replace)'')
   \<and> snd (getAccessToken offline_host demo_settings demo_config
      ((demo_state JUndefined JUndefined)\<lparr>token := JStr ''not-a-jwt''\<rparr>)) =
       Inl (TypeError ''Cannot read properties of undefined (reading replace)'')"
proof -
  let ?s = "demo_state JUndefined JUndefined"
  have no_dot: "CHR ''.'' \<notin> set ''not-a-jwt'' \<and> ''not-a-jwt'' \<noteq> []"
    by simp
  have unset: "\<forall>x. token ?s \<noteq> JStr x"
    using demo_signed_out_token by simp
  have good: "isValidTokenHeader offline_host (?s\<lparr>token := JStr rs256_jwt\<rparr>) = Inr True"
    using isValidTokenHeader_total [OF refl refl,
        where H = offline_host and s = ?s and t = rs256_jwt]
      demo_rs256_header
    by auto
  have bad: "isValidTokenHeader offline_host (?s\<lparr>token := JStr ''not-a-jwt''\<rparr>) = Inr False"
    using isValidTokenHeader_total [OF refl refl,
        where H = offline_host and s = ?s and t = "''not-a-jwt''"
          and e = "DOMException ''InvalidCharacterError''"]
      demo_not_base64
    by blast
  have none: "isValidTokenHeader offline_host ?s = Inr False"
    using isValidTokenHeader_total [OF refl refl, where H = offline_host and s = ?s] unset
    by blast
  have thrown: "isTokenExpired offline_host (?s\<lparr>token := JStr ''not-a-jwt''\<rparr>) =
        Inl (TypeError ''Cannot read properties of undefined (reading replace)'')
      \<and> getAccessToken offline_host demo_settings demo_config (?s\<lparr>token := JStr ''not-a-jwt''\<rparr>) =
        (?s\<lparr>token := JStr ''not-a-jwt''\<rparr>,
         Inl (TypeError ''Cannot read properties of undefined (reading replace)''))"
    using isValidTokenHeader_total [OF refl refl,
        where H = offline_host and s = ?s and u = "''not-a-jwt''"
          and S = demo_settings and cfg = demo_config] no_dot
    by blast
  from good bad none thrown show ?thesis by simp
qed

text \<open>
  C5, as amended. The helper has two \<open>try\<close>/\<open>catch\<close> blocks: the one around the refresh
  call in \<open>getAccessToken\<close> (C1) and the one around the whole body of
  \<open>isValidTokenHeader\<close>, which turns every error of the header's decoding into the
  result \<open>false\<close>. Every error raised elsewhere reaches the caller:
  \<^item> the first falsy configuration value, from \<open>validateConfig\<close>;
  \<^item> in the guard, a stored token that is truthy and has no \<open>split\<close>, a token without a
    dot, and for a token with a payload segment the errors of \<open>atob\<close>,
    \<open>decodeURIComponent\<close> and \<open>JSON.parse\<close> on it and the read of \<open>exp\<close> on \<open>null\<close>;
  \<^item> in \<open>retrieveNewTokens\<close>, reached without a refresh token or after a failed refresh,
    the errors of \<open>explorer.oauth2Request\<close>, of reading \<open>code\<close> from \<open>null\<close> or
    \<open>undefined\<close>, of the first \<open>encodeURIComponent\<close> that fails on a field of the
    request body, of \<open>explorer.fetch\<close>, of reading \<open>body\<close> from \<open>null\<close> or
    \<open>undefined\<close>, of \<open>JSON.parse\<close>, and of destructuring \<open>null\<close>.
\<close>

theorem errors_outside_catch_propagate:
  assumes "to_base64 =
      (\<lambda>c. if c = CHR ''-'' then CHR ''+'' else if c = CHR ''_'' then CHR ''/'' else c)"
    and "percent =
      (\<lambda>decoded. concat (map (\<lambda>c. [CHR ''%'',
                                       ''0123456789abcdef'' ! ((of_char c :: nat) div 16),
                                       ''0123456789abcdef'' ! ((of_char c :: nat) mod 16)])
                              decoded))"
    and "params =
      JObj [(''client_id'', field cfg ''client_id''),
            (''state'', field cfg ''state''),
            (''scope'', field cfg ''scope''),
            (''response_type'', field cfg ''response_type''),
            (''code_challenge_method'', field cfg ''code_challenge_method''),
            (''code_challenge'', field cfg ''code_challenge'')]"
  shows
   "(k < length (config S (environment w)) \<and> \<not> truthy (snd (config S (environment w) ! k))
       \<and> (\<forall>j<k. truthy (snd (config S (environment w) ! j))) \<longrightarrow>
       snd (preflight H S w) =
         Inl (Error (''Missing config value for '' @ fst (config S (environment w) ! k))))
    \<and> (truthy (token s) \<and> (\<forall>x. token s \<noteq> JStr x) \<longrightarrow>
         (\<exists>m. getAccessToken H S cfg s = (s, Inl (TypeError m))))
    \<and> (token s = JStr u \<and> u \<noteq> [] \<and> CHR ''.'' \<notin> set u \<longrightarrow>
         (\<exists>m. getAccessToken H S cfg s = (s, Inl (TypeError m))))
    \<and> (token s = JStr (h @ CHR ''.'' # rest) \<and> CHR ''.'' \<notin> set h
         \<and> payload = map to_base64 (takeWhile (\<lambda>c. c \<noteq> CHR ''.'') rest) \<longrightarrow>
          (atob H payload = Inl e \<longrightarrow> getAccessToken H S cfg s = (s, Inl e))
        \<and> (atob H payload = Inr decoded \<longrightarrow>
             (decodeURIComponent H (percent decoded) = Inl e \<longrightarrow>
                getAccessToken H S cfg s = (s, Inl e))
           \<and> (decodeURIComponent H (percent decoded) = Inr json \<longrightarrow>
                (JSON_parse H (JStr json) = Inl e \<longrightarrow> getAccessToken H S cfg s = (s, Inl e))
              \<and> (JSON_parse H (JStr json) = Inr JNull \<or> JSON_parse H (JStr json) = Inr JUndefined \<longrightarrow>
                   (\<exists>m. getAccessToken H S cfg s = (s, Inl (TypeError m)))))))
    \<and> ((cached_token_usable H s = Inr False \<and> \<not> truthy (refreshToken s) \<and> s0 = s)
         \<or> (cached_token_usable H s = Inr False \<and> truthy (refreshToken s)
              \<and> refreshAccessToken H S cfg s = (s1, Inl e0)
              \<and> s0 = console_error ''Failed to refresh access token:'' e0 s1) \<longrightarrow>
          (explorer_oauth2Request H (requests s0) (ENDPOINTS_authorize S) params = Inl e \<longrightarrow>
             snd (getAccessToken H S cfg s) = Inl e)
        \<and> (explorer_oauth2Request H (requests s0) (ENDPOINTS_authorize S) params = Inr answer \<longrightarrow>
             (answer = JNull \<or> answer = JUndefined \<longrightarrow>
                (\<exists>m. snd (getAccessToken H S cfg s) = Inl (TypeError m)))
           \<and> (getProp answer ''code'' = Inr code
                \<and> form = [(''client_id'', field cfg ''client_id''),
                           (''tenant_id'', field cfg ''tenant_id''),
                           (''code'', code),
                           (''code_verifier'', field cfg ''code_verifier''),
                           (''grant_type'', JStr ''authorization_code''),
                           (''redirect_uri'', field cfg ''redirect_uri'')] \<longrightarrow>
                (i < length form \<and> encodeURIComponent H (snd (form ! i)) = Inl e
                   \<and> (\<forall>j<i. \<exists>x. encodeURIComponent H (snd (form ! j)) = Inr x) \<longrightarrow>
                   snd (getAccessToken H S cfg s) = Inl e)
              \<and> (constructRequestBody H form = Inr body \<longrightarrow>
                   (explorer_fetch H (requests s0 @ [OAuth2Request (ENDPOINTS_authorize S) params])
                        (ENDPOINTS_token S) (fetch_options body) = Inl e \<longrightarrow>
                      snd (getAccessToken H S cfg s) = Inl e)
                 \<and> (explorer_fetch H (requests s0 @ [OAuth2Request (ENDPOINTS_authorize S) params])
                        (ENDPOINTS_token S) (fetch_options body) = Inr response \<longrightarrow>
                      (response = JNull \<or> response = JUndefined \<longrightarrow>
                         (\<exists>m. snd (getAccessToken H S cfg s) = Inl (TypeError m)))
                    \<and> (getProp response ''body'' = Inr response_body \<longrightarrow>
                         (JSON_parse H response_body = Inl e \<longrightarrow>
                            snd (getAccessToken H S cfg s) = Inl e)
                       \<and> (JSON_parse H response_body = Inr JNull
                            \<or> JSON_parse H response_body = Inr JUndefined \<longrightarrow>
                            (\<exists>m. snd (getAccessToken H S cfg s) = Inl (TypeError m)))))))))
    \<and> (token s = JStr t \<and> header = map to_base64 (takeWhile (\<lambda>c. c \<noteq> CHR ''.'') t) \<longrightarrow>
          (atob H header = Inl e \<longrightarrow> isValidTokenHeader H s = Inr False)
        \<and> (atob H header = Inr decoded \<longrightarrow>
             (decodeURIComponent H (percent decoded) = Inl e \<longrightarrow>
                isValidTokenHeader H s = Inr False)
           \<and> (decodeURIComponent H (percent decoded) = Inr json \<longrightarrow>
                (JSON_parse H (JStr json) = Inl e \<longrightarrow> isValidTokenHeader H s = Inr False)
              \<and> (JSON_parse H (JStr json) = Inr JNull \<longrightarrow> isValidTokenHeader H s = Inr False))))"
  apply (intro conjI)
  subgoal
    using preflight_missing_config [of k S w H] by blast
  subgoal
    by (rule guard_not_string)
  subgoal
    by (rule guard_no_dot)
  subgoal
    by (rule guard_raise_sites [OF assms(1) assms(2)])
  subgoal
    apply (rule impI)
    apply (drule fallback_reached)
    apply (erule ssubst)
    apply (rule retrieveNewTokens_raise_sites [OF assms(3)])
    done
  subgoal
    by (rule header_catch_sites [OF assms(1) assms(2)])
  done

theorem errors_outside_catch_propagate_witness:
  "snd (preflight offline_host demo_settings
          \<lparr>environment = Map.empty, env_writes = [], requests = [], console_errors = []\<rparr>) =
     Inl (Error ''Missing config value for code_challenge'')
   \<and> getAccessToken offline_host demo_settings demo_config
        (demo_state (JStr bad_payload_jwt) (JStr ''0.AXoA'')) =
       (demo_state (JStr bad_payload_jwt) (JStr ''0.AXoA''),
        Inl (DOMException ''InvalidCharacterError''))
   \<and> snd (getAccessToken offline_host demo_settings demo_config
        (demo_state JUndefined JUndefined)) = Inl (Error ''Authorization window closed'')
   \<and> snd (getAccessToken html_body_host demo_settings demo_config
        (demo_state JUndefined JUndefined)) = Inl (SyntaxError ''Unexpected token'')
   \<and> isValidTokenHeader refreshing_host
        (demo_state (JStr bad_header_jwt) (JStr ''0.AXoA'')) = Inr False"
proof -
  let ?w = "\<lparr>environment = Map.empty, env_writes = [], requests = [], console_errors = []\<rparr>"
  let ?none = "demo_state JUndefined JUndefined"
  let ?bad_payload = "demo_state (JStr bad_payload_jwt) (JStr ''0.AXoA'')"
  let ?bad_header = "demo_state (JStr bad_header_jwt) (JStr ''0.AXoA'')"
  note sites = errors_outside_catch_propagate [OF refl refl refl]
  have "j = 0 \<or> j = 1 \<or> j = 2 \<or> j = 3 \<or> j = 4 \<or> j = 5" if "j < 6" for j :: nat
    using that by arith
  then have earlier: "\<forall>j<6. truthy (snd (config demo_settings (environment ?w) ! j))"
    using demo_missing_code_challenge by auto
  have "snd (preflight offline_host demo_settings ?w) =
      Inl (Error (''Missing config value for '' @ fst (config demo_settings (environment ?w) ! 6)))"
    using sites [where k = 6 and S = demo_settings and w = ?w and H = offline_host,
        THEN conjunct1]
      earlier demo_missing_code_challenge
    by simp
  then have r1: "snd (preflight offline_host demo_settings ?w) =
      Inl (Error ''Missing config value for code_challenge'')"
    using demo_missing_code_challenge by simp
  have no_dot: "CHR ''.'' \<notin> set ''eyJ0eXAiOiJKV1QiLCJhbGciOiJIUzI1NiJ9''"
    by simp
  have r2: "getAccessToken offline_host demo_settings demo_config ?bad_payload =
      (?bad_payload, Inl (DOMException ''InvalidCharacterError''))"
    using sites [where s = ?bad_payload and h = "''eyJ0eXAiOiJKV1QiLCJhbGciOiJIUzI1NiJ9''"
          and rest = "''!!!.c2ln''" and H = offline_host
          and e = "DOMException ''InvalidCharacterError''"
          and S = demo_settings and cfg = demo_config,
        THEN conjunct2, THEN conjunct2, THEN conjunct2, THEN conjunct1]
      demo_bad_payload(1) no_dot demo_not_base64(3)
    by blast
  have r3: "snd (getAccessToken offline_host demo_settings demo_config ?none) =
      Inl (Error ''Authorization window closed'')"
    using sites [where H = offline_host and s = ?none and ?s0.0 = ?none
          and S = demo_settings and cfg = demo_config
          and e = "Error ''Authorization window closed''",
        THEN conjunct2, THEN conjunct2, THEN conjunct2, THEN conjunct2, THEN conjunct1]
      demo_signed_out(1) demo_signed_out(2) demo_network(1)
    by blast
  have r4: "snd (getAccessToken html_body_host demo_settings demo_config ?none) =
      Inl (SyntaxError ''Unexpected token'')"
    using sites [where H = html_body_host and s = ?none and ?s0.0 = ?none
          and S = demo_settings and cfg = demo_config
          and e = "SyntaxError ''Unexpected token''"
          and answer = "JObj [(''code'', JStr ''M0ab92efe'')]"
          and code = "JStr ''M0ab92efe''"
          and response = "JObj [(''body'', JStr ''<html>Service unavailable</html>'')]"
          and response_body = "JStr ''<html>Service unavailable</html>''",
        THEN conjunct2, THEN conjunct2, THEN conjunct2, THEN conjunct2, THEN conjunct1]
      demo_html_body demo_signed_out(2) demo_network(3) demo_network(4)
    by simp
  have r5: "isValidTokenHeader refreshing_host ?bad_header = Inr False"
    using sites [where s = ?bad_header and t = bad_header_jwt and H = refreshing_host
          and e = "DOMException ''InvalidCharacterError''",
        THEN conjunct2, THEN conjunct2, THEN conjunct2, THEN conjunct2, THEN conjunct2]
      demo_bad_payload(2) demo_not_base64(2)
    by blast
  from r1 r2 r3 r4 r5 show ?thesis by simp
qed

text \<open>
  C5, as the claim states it, fails: with a stored token whose header is not base64,
  \<open>atob\<close> throws inside \<open>isValidTokenHeader\<close>, away from the refresh call; the error is
  caught there, and \<open>getAccessToken\<close> goes on to refresh the token and returns it.
\<close>

theorem header_error_caught_counterexample:
  "isValidTokenHeader_try refreshing_host (demo_state (JStr bad_header_jwt) (JStr ''0.AXoA'')) =
     Inl (DOMException ''InvalidCharacterError'')
   \<and> snd (getAccessToken refreshing_host demo_settings demo_config
         (demo_state (JStr bad_header_jwt) (JStr ''0.AXoA''))) = Inr (JStr valid_jwt)"
  using demo_bad_header by simp

text \<open>
  C10, as amended. \<open>refreshAccessToken\<close> throws
  \<^item> when the request body cannot be built, that is when \<open>encodeURIComponent\<close> throws on
    the client id, on \<open>refresh_token\<close> or on the refresh token, before any request;
  \<^item> when \<open>explorer.fetch\<close> throws;
  \<^item> when the response is \<open>null\<close> or \<open>undefined\<close>, so that its \<open>body\<close> cannot be read;
  \<^item> when \<open>JSON.parse\<close> of the body throws;
  \<^item> when the body parses to \<open>null\<close>.
  When the body parses to an object, it throws exactly when the object has a truthy
  \<open>error\<close> property, and otherwise returns the \<open>access_token\<close> property (\<open>undefined\<close>
  when absent); when the body parses to a boolean, a number, a string or an array, it
  returns \<open>undefined\<close>.
\<close>

theorem refreshAccessToken_outcome:
  assumes "sent = s\<lparr>requests := requests s @ [Fetch (ENDPOINTS_token S) (fetch_options body)]\<rparr>"
    and "body = ''client_id='' @ a @ ''&grant_type='' @ g @ ''&refresh_token='' @ r"
  shows
   "(encodeURIComponent H (field cfg ''client_id'') = Inl e \<longrightarrow>
       refreshAccessToken H S cfg s = (s, Inl e))
    \<and> (encodeURIComponent H (field cfg ''client_id'') = Inr a \<longrightarrow>
         (encodeURIComponent H (JStr ''refresh_token'') = Inl e \<longrightarrow>
            refreshAccessToken H S cfg s = (s, Inl e))
       \<and> (encodeURIComponent H (JStr ''refresh_token'') = Inr g \<longrightarrow>
            (encodeURIComponent H (refreshToken s) = Inl e \<longrightarrow>
               refreshAccessToken H S cfg s = (s, Inl e))
          \<and> (encodeURIComponent H (refreshToken s) = Inr r \<longrightarrow>
               (explorer_fetch H (requests s) (ENDPOINTS_token S) (fetch_options body) = Inl e \<longrightarrow>
                  refreshAccessToken H S cfg s = (sent, Inl e))
             \<and> (explorer_fetch H (requests s) (ENDPOINTS_token S) (fetch_options body) =
                    Inr response \<longrightarrow>
                  (response = JNull \<or> response = JUndefined \<longrightarrow>
                     (\<exists>m. refreshAccessToken H S cfg s = (sent, Inl (TypeError m))))
                \<and> (getProp response ''body'' = Inr response_body \<longrightarrow>
                     (JSON_parse H response_body = Inl e \<longrightarrow>
                        refreshAccessToken H S cfg s = (sent, Inl e))
                   \<and> (JSON_parse H response_body = Inr JNull \<longrightarrow>
                        (\<exists>m. refreshAccessToken H S cfg s = (sent, Inl (TypeError m))))
                   \<and> (JSON_parse H response_body = Inr (JObj kvs) \<longrightarrow>
                        refreshAccessToken H S cfg s =
                          (sent,
                           if truthy (case map_of kvs ''error'' of
                                        Some v \<Rightarrow> v | None \<Rightarrow> JUndefined)
                           then Inl (Error ''Unable to refresh access token. Refresh token may be expired.'')
                           else Inr (case map_of kvs ''access_token'' of
                                       Some v \<Rightarrow> v | None \<Rightarrow> JUndefined)))
                   \<and> (JSON_parse H response_body = Inr parsed
                        \<and> (\<forall>kvs. parsed \<noteq> JObj kvs) \<and> parsed \<noteq> JNull
                        \<and> parsed \<noteq> JUndefined \<longrightarrow>
                        refreshAccessToken H S cfg s = (sent, Inr JUndefined)))))))"
  unfolding assms
  by (intro conjI impI; (elim conjE)?)
     (auto simp: refreshAccessToken_def refresh_response_def constructRequestBody_def
        log_request_def Let_def getProp_not_object)

theorem refreshAccessToken_outcome_witness:
  "snd (refreshAccessToken offline_host demo_settings demo_config
         (demo_state (JStr expired_jwt) (JStr ''0.AXoA''))) = Inl (TypeError ''Failed to fetch'')
   \<and> snd (refreshAccessToken html_body_host demo_settings demo_config
         (demo_state (JStr expired_jwt) (JStr ''0.AXoA''))) = Inl (SyntaxError ''Unexpected token'')
   \<and> isl (snd (refreshAccessToken null_body_host demo_settings demo_config
         (demo_state (JStr expired_jwt) (JStr ''0.AXoA''))))
   \<and> snd (refreshAccessToken refreshing_host demo_settings demo_config
         (demo_state (JStr expired_jwt) (JStr ''0.AXoA''))) = Inr (JStr valid_jwt)
   \<and> snd (refreshAccessToken reauthorising_host demo_settings demo_config
         (demo_state (JStr expired_jwt) (JStr ''0.AXoA''))) =
       Inl (Error ''Unable to refresh access token. Refresh token may be expired.'')"
proof -
  let ?s = "demo_state (JStr expired_jwt) (JStr ''0.AXoA'')"
  let ?a = "''6731de76-14a6-49ae-97bc-6eba6914391e''"
  note outcome = refreshAccessToken_outcome [OF refl refl,
      where s = ?s and S = demo_settings and cfg = demo_config
        and a = ?a and g = "''refresh_token''" and r = "''0.AXoA''"]
  note form = demo_refresh_form(1-3) demo_same_builtins demo_refresh_form(5-8)
  have r1: "snd (refreshAccessToken offline_host demo_settings demo_config ?s) =
      Inl (TypeError ''Failed to fetch'')"
    using outcome [where H = offline_host and e = "TypeError ''Failed to fetch''"]
      form demo_network(2)
    by simp
  have r2: "snd (refreshAccessToken html_body_host demo_settings demo_config ?s) =
      Inl (SyntaxError ''Unexpected token'')"
    using outcome [where H = html_body_host and e = "SyntaxError ''Unexpected token''"
        and response = "JObj [(''body'', JStr ''<html>Service unavailable</html>'')]"
        and response_body = "JStr ''<html>Service unavailable</html>''"]
      form demo_network(4)
    by simp
  have "\<exists>m. refreshAccessToken null_body_host demo_settings demo_config ?s =
      (?s\<lparr>requests := requests ?s @
           [Fetch (ENDPOINTS_token demo_settings)
              (fetch_options (''client_id='' @ ?a @ ''&grant_type='' @ ''refresh_token'' @
                 ''&refresh_token='' @ ''0.AXoA''))]\<rparr>, Inl (TypeError m))"
    using outcome [where H = null_body_host
        and response = "JObj [(''body'', JStr ''null'')]" and response_body = "JStr ''null''"]
      form demo_network(5)
    by simp
  then have r3: "isl (snd (refreshAccessToken null_body_host demo_settings demo_config ?s))"
    by auto
  have r4: "snd (refreshAccessToken refreshing_host demo_settings demo_config ?s) =
      Inr (JStr valid_jwt)"
    using outcome [where H = refreshing_host
        and response = "JObj [(''body'', JStr refreshed_body_text)]"
        and response_body = "JStr refreshed_body_text"
        and kvs = "[(''access_token'', JStr valid_jwt)]"]
      form demo_network(6)
    by simp
  have r5: "snd (refreshAccessToken reauthorising_host demo_settings demo_config ?s) =
      Inl (Error ''Unable to refresh access token. Refresh token may be expired.'')"
    using outcome [where H = reauthorising_host
        and response = "JObj [(''body'', JStr invalid_grant_body_text)]"
        and response_body = "JStr invalid_grant_body_text"
        and kvs = "[(''error'', JStr ''invalid_grant'')]"]
      form demo_network(7) demo_refresh_form(4)
    by simp
  from r1 r2 r3 r4 r5 show ?thesis by simp
qed

text \<open>
  C10, as the claim states it, fails in the direction "throws only if the parsed body has
  a truthy error field": with the network down there is no parsed body and the call
  throws, and a body that parses to \<open>null\<close> has no \<open>error\<close> field and the call throws.
\<close>

theorem refreshAccessToken_throws_without_error_field_counterexample:
  "snd (refresh_response offline_host demo_settings demo_config
         (demo_state (JStr expired_jwt) (JStr ''0.AXoA''))) = Inl (TypeError ''Failed to fetch'')
   \<and> snd (refreshAccessToken offline_host demo_settings demo_config
         (demo_state (JStr expired_jwt) (JStr ''0.AXoA''))) = Inl (TypeError ''Failed to fetch'')
   \<and> snd (refresh_response null_body_host demo_settings demo_config
         (demo_state (JStr expired_jwt) (JStr ''0.AXoA''))) = Inr JNull
   \<and> snd (refreshAccessToken null_body_host demo_settings demo_config
         (demo_state (JStr expired_jwt) (JStr ''0.AXoA''))) =
       Inl (TypeError ''Cannot read properties of null (reading access_token)'')"
  using demo_expired_offline demo_null_body by simp

section \<open>Facts about the scroll hook\<close>

lemma mount_effects:
  assumes "useSaveScrollPosition_mount B p = (p', h)"
  shows "storage_reads p' = storage_reads p @ [''scrollPosition'']"
    and "storage_writes p' = storage_writes p"
    and "localStorage p' = localStorage p"
    and "scroll_listeners p' = scroll_listeners p @ [next_listener p]"
    and "h = next_listener p"
    and "scrollY p' = scrollY p"
    and "document p' = document p"
  using assms
  by (auto simp: useSaveScrollPosition_mount_def getItem_def scrollTo_def Let_def
      split: option.splits if_splits)

lemma mount_scrollTo:
  "scrollTo_calls (fst (useSaveScrollPosition_mount B p)) =
     (case localStorage p ''scrollPosition'' of
        None \<Rightarrow> scrollTo_calls p
      | Some v \<Rightarrow> if v = [] then scrollTo_calls p
                  else scrollTo_calls p @ [(Number_of_string B v, ''smooth'')])"
  by (simp add: useSaveScrollPosition_mount_def getItem_def scrollTo_def Let_def
      split: option.splits)

lemma listeners_run:
  "storage_writes (fold (\<lambda>listener. saveScrollPosition B) ls p) =
     storage_writes p @ replicate (length ls) (''scrollPosition'', String_of_number B (scrollY p))
   \<and> localStorage (fold (\<lambda>listener. saveScrollPosition B) ls p) =
       (if ls = [] then localStorage p
        else (localStorage p)(''scrollPosition'' \<mapsto> String_of_number B (scrollY p)))
   \<and> storage_reads (fold (\<lambda>listener. saveScrollPosition B) ls p) = storage_reads p
   \<and> scroll_listeners (fold (\<lambda>listener. saveScrollPosition B) ls p) = scroll_listeners p
   \<and> scrollY (fold (\<lambda>listener. saveScrollPosition B) ls p) = scrollY p"
proof (induction ls arbitrary: p)
  case Nil
  show ?case by simp
next
  case (Cons l ls)
  let ?q = "saveScrollPosition B p"
  have q: "scrollY ?q = scrollY p"
    "storage_writes ?q = storage_writes p @ [(''scrollPosition'', String_of_number B (scrollY p))]"
    "localStorage ?q = (localStorage p)(''scrollPosition'' \<mapsto> String_of_number B (scrollY p))"
    "storage_reads ?q = storage_reads p"
    "scroll_listeners ?q = scroll_listeners p"
    by (simp_all add: saveScrollPosition_def setItem_def)
  show ?case
    using Cons.IH [of ?q] by (auto simp: q)
qed

lemma scroll_event_effects:
  shows "storage_writes (scroll_event B y p) =
           storage_writes p @
           replicate (length (scroll_listeners p)) (''scrollPosition'', String_of_number B y)"
    and "localStorage (scroll_event B y p) =
           (if scroll_listeners p = [] then localStorage p
            else (localStorage p)(''scrollPosition'' \<mapsto> String_of_number B y))"
    and "storage_reads (scroll_event B y p) = storage_reads p"
    and "scroll_listeners (scroll_event B y p) = scroll_listeners p"
  using listeners_run [of B "scroll_listeners p" "p\<lparr>scrollY := y\<rparr>"]
  by (simp_all add: scroll_event_def)

lemma scroll_events_one_listener:
  assumes "scroll_listeners p = [h]"
  shows "storage_writes (fold (scroll_event B) ys p) =
           storage_writes p @ map (\<lambda>y. (''scrollPosition'', String_of_number B y)) ys
       \<and> localStorage (fold (scroll_event B) ys p) ''scrollPosition'' =
           (if ys = [] then localStorage p ''scrollPosition''
            else Some (String_of_number B (last ys)))
       \<and> storage_reads (fold (scroll_event B) ys p) = storage_reads p
       \<and> scroll_listeners (fold (scroll_event B) ys p) = [h]"
  using assms
proof (induction ys arbitrary: p)
  case Nil
  then show ?case by simp
next
  case (Cons y ys)
  have l: "scroll_listeners (scroll_event B y p) = [h]"
    using Cons.prems by (simp add: scroll_event_effects)
  show ?case
    using Cons.IH [OF l] Cons.prems
    by (simp add: scroll_event_effects)
qed

lemma scroll_events_no_listener:
  assumes "scroll_listeners p = []"
  shows "storage_writes (fold (scroll_event B) zs p) = storage_writes p
       \<and> localStorage (fold (scroll_event B) zs p) = localStorage p
       \<and> storage_reads (fold (scroll_event B) zs p) = storage_reads p
       \<and> scroll_listeners (fold (scroll_event B) zs p) = []"
  using assms
proof (induction zs arbitrary: p)
  case Nil
  then show ?case by simp
next
  case (Cons z zs)
  have l: "scroll_listeners (scroll_event B z p) = []"
    using Cons.prems by (simp add: scroll_event_effects)
  show ?case
    using Cons.IH [OF l] Cons.prems
    by (simp add: scroll_event_effects)
qed

section \<open>Facts about the element tree\<close>

lemma getElementById_list_None:
  "getElementById_list i cs n = None \<longleftrightarrow> (\<forall>c \<in> set cs. getElementById i c = None)"
  by (induction cs arbitrary: n) (auto split: option.splits)

lemma getElementById_list_Some:
  "getElementById_list i cs n = Some path \<Longrightarrow>
   \<exists>j q. path = (n + j) # q \<and> j < length cs \<and> getElementById i (cs ! j) = Some q"
proof (induction cs arbitrary: n)
  case Nil
  then show ?case by simp
next
  case (Cons c cs)
  show ?case
  proof (cases "getElementById i c")
    case (Some q)
    with Cons.prems have "path = (n + 0) # q" by simp
    with Some show ?thesis by (intro exI [of _ 0] exI [of _ q]) simp
  next
    case None
    with Cons.prems have "getElementById_list i cs (Suc n) = Some path" by simp
    from Cons.IH [OF this] obtain j q where
      "path = (Suc n + j) # q" "j < length cs" "getElementById i (cs ! j) = Some q"
      by blast
    then show ?thesis by (intro exI [of _ "Suc j"] exI [of _ q]) simp
  qed
qed

lemma getElementById_list_first:
  "i < length cs \<Longrightarrow> \<forall>j < i. getElementById x (cs ! j) = None \<Longrightarrow>
   getElementById x c' = Some q \<Longrightarrow>
   getElementById_list x (cs[i := c']) n = Some ((n + i) # q)"
proof (induction cs arbitrary: i n)
  case Nil
  then show ?case by simp
next
  case (Cons c cs)
  show ?case
  proof (cases i)
    case 0
    with Cons.prems show ?thesis by simp
  next
    case (Suc k)
    from Cons.prems Suc have first: "getElementById x c = None" by auto
    from Cons.prems Suc have rest: "\<forall>j < k. getElementById x (cs ! j) = None" by auto
    from Cons.prems Suc have "k < length cs" by simp
    from Cons.IH [OF this rest Cons.prems(3), of "Suc n"] first Suc
    show ?thesis by simp
  qed
qed

lemma getElementById_lookup:
  "getElementById i d = Some path \<Longrightarrow>
   \<exists>e. lookup d path = Some e \<and> map_of (attributes e) ''id'' = Some i"
proof (induction path arbitrary: d)
  case Nil
  obtain t attrs a cs where d: "d = Element t attrs a cs" by (cases d)
  with Nil have "map_of attrs ''id'' = Some i"
    by (auto split: if_splits dest: getElementById_list_Some)
  with d show ?case by simp
next
  case (Cons k path)
  obtain t attrs a cs where d: "d = Element t attrs a cs" by (cases d)
  with Cons.prems have "getElementById_list i cs 0 = Some (k # path)"
    by (auto split: if_splits)
  from getElementById_list_Some [OF this]
  have k: "k < length cs" and sub: "getElementById i (cs ! k) = Some path" by auto
  from Cons.IH [OF sub] k d show ?case by simp
qed

lemma lookup_update_at:
  "lookup d path = Some e \<Longrightarrow> lookup (update_at path f d) path = Some (f e)"
  by (induction path arbitrary: d) (auto split: if_splits)

lemma update_at_append:
  "lookup d path = Some e \<Longrightarrow>
   update_at (path @ q) g (update_at path f d) = update_at path (\<lambda>x. update_at q g (f x)) d"
  by (induction path arbitrary: d) (auto split: if_splits)

lemma getElementById_after_innerHTML:
  "lookup d box_path = Some box \<Longrightarrow>
   getElementById x (update_at box_path (set_innerHTML_div x) d) \<noteq> None"
proof (induction box_path arbitrary: d)
  case Nil
  then show ?case
    by (cases d) (simp add: set_innerHTML_div_def)
next
  case (Cons k path)
  obtain t attrs a cs where d: "d = Element t attrs a cs" by (cases d)
  with Cons.prems have k: "k < length cs" and sub: "lookup (cs ! k) path = Some box"
    by (auto split: if_splits)
  let ?c = "update_at path (set_innerHTML_div x) (cs ! k)"
  from Cons.IH [OF sub] have "getElementById x ?c \<noteq> None" .
  moreover from k have "?c \<in> set (cs[k := ?c])"
    by (simp add: set_update_memI)
  ultimately have "getElementById_list x (cs[k := ?c]) 0 \<noteq> None"
    by (auto simp: getElementById_list_None)
  with d k show ?case by simp
qed

lemma getElementById_fresh:
  "lookup d box_path = Some box \<Longrightarrow> getElementById x d = None \<Longrightarrow>
   getElementById x (update_at box_path (set_innerHTML_div x) d) = Some (box_path @ [0])"
proof (induction box_path arbitrary: d)
  case Nil
  then show ?case
    by (cases d) (auto simp: set_innerHTML_div_def split: if_splits)
next
  case (Cons k path)
  obtain t attrs a cs where d: "d = Element t attrs a cs" by (cases d)
  with Cons.prems have k: "k < length cs" and sub: "lookup (cs ! k) path = Some box"
    by (auto split: if_splits)
  from Cons.prems d have root: "map_of attrs ''id'' \<noteq> Some x"
    and none: "\<forall>c \<in> set cs. getElementById x c = None"
    by (auto split: if_splits simp: getElementById_list_None)
  let ?c = "update_at path (set_innerHTML_div x) (cs ! k)"
  from none k have "getElementById x (cs ! k) = None" by simp
  from Cons.IH [OF sub this] have c: "getElementById x ?c = Some (path @ [0])" .
  from none k have "\<forall>j < k. getElementById x (cs ! j) = None" by simp
  from getElementById_list_first [OF k this c, of 0]
  have "getElementById_list x (cs[k := ?c]) 0 = Some (k # path @ [0])" by simp
  with d k root show ?case by simp
qed

lemma utterances_script_eq:
  "utterances_script =
     Element ''script''
       [(''src'', ''https://utteranc.es/client.js''),
        (''repo'', ''mxmnci/portfolio-website''),
        (''issue-term'', ''pathname''),
        (''theme'', ''preferred-color-scheme''),
        (''crossorigin'', ''anonymous'')]
       True []"
  by (simp add: utterances_script_def setAttribute_def set_async_def createElement_def)

lemma Comments_mount_storage:
  "localStorage (fst (Comments_mount B commentBox p)) = localStorage p"
  "storage_writes (fst (Comments_mount B commentBox p)) = storage_writes p"
  "storage_reads (fst (Comments_mount B commentBox p)) = storage_reads p"
  by (simp_all add: Comments_mount_def Let_def split: option.splits)

section \<open>Evaluations on the demonstration page\<close>

lemma demo_empty_saved_value:
  "localStorage (demo_page [(''scrollPosition'', [])]) ''scrollPosition'' = Some []"
  "scrollTo_calls (fst (useSaveScrollPosition_mount demo_browser
      (demo_page [(''scrollPosition'', [])]))) = []"
  "storage_reads (fst (useSaveScrollPosition_mount demo_browser
      (demo_page [(''scrollPosition'', [])]))) = [''scrollPosition'']"
  by code_simp+

lemma demo_comment_box:
  "lookup (document (demo_page [])) [1, 1] =
     Some (Element ''div'' [] False [Element ''p'' [] False []])"
  "getElementById (''comments_'' @ decimal (Date_now_ms demo_browser)) (document (demo_page [])) = None"
  "decimal (Date_now_ms demo_browser) = ''1700000000000''"
  by code_simp+

lemma demo_session:
  "storage_writes (run_page demo_browser
      [Mount_hook, Scroll 120, Scroll 480, Mount_comments [1, 1], Unmount_hook 0, Scroll 120]
      (demo_page [(''theme'', ''dark'')])) =
     [(''scrollPosition'', ''120''), (''scrollPosition'', ''480'')]"
  "localStorage (demo_page [(''theme'', ''dark'')]) ''theme'' = Some ''dark''"
  "storage_writes (demo_page [(''theme'', ''dark'')]) = []"
  by code_simp+

section \<open>The claims about the page\<close>

text \<open>
  C2, as amended. On mount the hook reads \<open>scrollPosition\<close> from local storage once.
  Whenever the stored value is a non-empty string, it calls \<open>window.scrollTo\<close> with
  \<open>top\<close> the \<open>Number\<close> of that string and smooth behaviour; when nothing is stored, or
  the empty string is, it does not scroll.
\<close>

theorem mount_restores_scroll:
  "(localStorage p ''scrollPosition'' = Some v \<and> v \<noteq> [] \<longrightarrow>
      scrollTo_calls (fst (useSaveScrollPosition_mount B p)) =
        scrollTo_calls p @ [(Number_of_string B v, ''smooth'')])
   \<and> (localStorage p ''scrollPosition'' = None \<or> localStorage p ''scrollPosition'' = Some [] \<longrightarrow>
        scrollTo_calls (fst (useSaveScrollPosition_mount B p)) = scrollTo_calls p)
   \<and> storage_reads (fst (useSaveScrollPosition_mount B p)) =
        storage_reads p @ [''scrollPosition'']"
proof -
  have "storage_reads (fst (useSaveScrollPosition_mount B p)) =
      storage_reads p @ [''scrollPosition'']"
    by (rule mount_effects(1) [of B p _ "snd (useSaveScrollPosition_mount B p)"]) simp
  then show ?thesis
    by (auto simp: mount_scrollTo)
qed

theorem mount_restores_scroll_witness:
  "localStorage (demo_page [(''scrollPosition'', ''480'')]) ''scrollPosition'' = Some ''480''
   \<and> scrollTo_calls (fst (useSaveScrollPosition_mount demo_browser
        (demo_page [(''scrollPosition'', ''480'')]))) = [(Some 480, ''smooth'')]
   \<and> scrollTo_calls (fst (useSaveScrollPosition_mount demo_browser (demo_page []))) = []"
proof -
  let ?p = "demo_page [(''scrollPosition'', ''480'')]"
  have stored: "localStorage ?p ''scrollPosition'' = Some ''480'' \<and> ''480'' \<noteq> []"
    by (simp add: demo_page_def)
  have unset: "localStorage (demo_page []) ''scrollPosition'' = None"
    by (simp add: demo_page_def)
  have "scrollTo_calls (fst (useSaveScrollPosition_mount demo_browser ?p)) =
      scrollTo_calls ?p @ [(Number_of_string demo_browser ''480'', ''smooth'')]"
    using stored mount_restores_scroll [of ?p "''480''" demo_browser] by auto
  moreover have "scrollTo_calls (fst (useSaveScrollPosition_mount demo_browser (demo_page []))) =
      scrollTo_calls (demo_page [])"
    using unset mount_restores_scroll [of "demo_page []" "[]" demo_browser] by auto
  ultimately show ?thesis
    using stored by (simp add: demo_page_def demo_browser_def)
qed

text \<open>
  C2, as the claim states it, fails: with the empty string saved under
  \<open>scrollPosition\<close> a saved value exists, and the hook does not scroll.
\<close>

theorem empty_saved_value_counterexample:
  "localStorage (demo_page [(''scrollPosition'', [])]) ''scrollPosition'' = Some []
   \<and> scrollTo_calls (fst (useSaveScrollPosition_mount demo_browser
        (demo_page [(''scrollPosition'', [])]))) = []"
  using demo_empty_saved_value by simp

text \<open>
  C3. Whatever sequence of mounts, unmounts and scroll events happens on the page, every
  write to local storage goes to the key \<open>scrollPosition\<close> and stores the string of a
  scroll offset; every other key keeps its value; and once there was a write, the value
  stored under \<open>scrollPosition\<close> is the one written last.
\<close>

theorem storage_holds_last_scroll_offset:
  "\<exists>ws. storage_writes (run_page B events p) = storage_writes p @ ws
        \<and> (\<forall>w \<in> set ws. \<exists>y. w = (''scrollPosition'', String_of_number B y))
        \<and> (\<forall>k. k \<noteq> ''scrollPosition'' \<longrightarrow>
              localStorage (run_page B events p) k = localStorage p k)
        \<and> localStorage (run_page B events p) ''scrollPosition'' =
            (if ws = [] then localStorage p ''scrollPosition'' else Some (snd (last ws)))"
proof -
  have step: "\<exists>ws. storage_writes (page_step B ev q) = storage_writes q @ ws
        \<and> (\<forall>w \<in> set ws. \<exists>y. w = (''scrollPosition'', String_of_number B y))
        \<and> localStorage (page_step B ev q) =
            (if ws = [] then localStorage q
             else (localStorage q)(''scrollPosition'' \<mapsto> snd (last ws)))" for ev q
  proof (cases ev)
    case Mount_hook
    have "storage_writes (fst (useSaveScrollPosition_mount B q)) = storage_writes q"
      "localStorage (fst (useSaveScrollPosition_mount B q)) = localStorage q"
      by (rule mount_effects [of B q _ "snd (useSaveScrollPosition_mount B q)"], simp)+
    with Mount_hook show ?thesis by simp
  next
    case (Unmount_hook h)
    then show ?thesis by (simp add: useSaveScrollPosition_cleanup_def)
  next
    case (Scroll y)
    let ?w = "(''scrollPosition'', String_of_number B y)"
    let ?ws = "replicate (length (scroll_listeners q)) ?w"
    have "storage_writes (page_step B ev q) = storage_writes q @ ?ws"
      using Scroll by (simp add: scroll_event_effects)
    moreover have "\<forall>w \<in> set ?ws. \<exists>y. w = (''scrollPosition'', String_of_number B y)"
      by auto
    moreover have "localStorage (page_step B ev q) =
        (if ?ws = [] then localStorage q
         else (localStorage q)(''scrollPosition'' \<mapsto> snd (last ?ws)))"
      using Scroll by (simp add: scroll_event_effects)
    ultimately show ?thesis by blast
  next
    case (Mount_comments box)
    then show ?thesis by (simp add: Comments_mount_storage)
  qed
  have run: "\<exists>ws. storage_writes (fold (page_step B) events q) = storage_writes q @ ws
        \<and> (\<forall>w \<in> set ws. \<exists>y. w = (''scrollPosition'', String_of_number B y))
        \<and> localStorage (fold (page_step B) events q) =
            (if ws = [] then localStorage q
             else (localStorage q)(''scrollPosition'' \<mapsto> snd (last ws)))" for q
  proof (induction events arbitrary: q)
    case Nil
    show ?case by simp
  next
    case (Cons ev events)
    let ?q1 = "page_step B ev q"
    from step [of ev q] obtain ws1 where
      w1: "storage_writes ?q1 = storage_writes q @ ws1"
      and k1: "\<forall>w \<in> set ws1. \<exists>y. w = (''scrollPosition'', String_of_number B y)"
      and s1: "localStorage ?q1 =
          (if ws1 = [] then localStorage q
           else (localStorage q)(''scrollPosition'' \<mapsto> snd (last ws1)))"
      by blast
    from Cons.IH [of ?q1] obtain ws2 where
      w2: "storage_writes (fold (page_step B) events ?q1) = storage_writes ?q1 @ ws2"
      and k2: "\<forall>w \<in> set ws2. \<exists>y. w = (''scrollPosition'', String_of_number B y)"
      and s2: "localStorage (fold (page_step B) events ?q1) =
          (if ws2 = [] then localStorage ?q1
           else (localStorage ?q1)(''scrollPosition'' \<mapsto> snd (last ws2)))"
      by blast
    have "storage_writes (fold (page_step B) (ev # events) q) = storage_writes q @ (ws1 @ ws2)"
      using w1 w2 by simp
    moreover have "\<forall>w \<in> set (ws1 @ ws2). \<exists>y. w = (''scrollPosition'', String_of_number B y)"
      using k1 k2 by auto
    moreover have "localStorage (fold (page_step B) (ev # events) q) =
        (if ws1 @ ws2 = [] then localStorage q
         else (localStorage q)(''scrollPosition'' \<mapsto> snd (last (ws1 @ ws2))))"
      using s1 s2 by simp
    ultimately show ?case by blast
  qed
  from run [of p] obtain ws where
    "storage_writes (run_page B events p) = storage_writes p @ ws"
    "\<forall>w \<in> set ws. \<exists>y. w = (''scrollPosition'', String_of_number B y)"
    "localStorage (run_page B events p) =
        (if ws = [] then localStorage p
         else (localStorage p)(''scrollPosition'' \<mapsto> snd (last ws)))"
    unfolding run_page_def by blast
  then show ?thesis
    by (intro exI [of _ ws]) simp
qed

theorem storage_holds_last_scroll_offset_witness:
  "storage_writes (run_page demo_browser
      [Mount_hook, Scroll 120, Scroll 480, Mount_comments [1, 1], Unmount_hook 0, Scroll 120]
      (demo_page [(''theme'', ''dark'')])) =
     [(''scrollPosition'', ''120''), (''scrollPosition'', ''480'')]
   \<and> localStorage (run_page demo_browser
      [Mount_hook, Scroll 120, Scroll 480, Mount_comments [1, 1], Unmount_hook 0, Scroll 120]
      (demo_page [(''theme'', ''dark'')])) ''scrollPosition'' = Some ''480''
   \<and> localStorage (run_page demo_browser
      [Mount_hook, Scroll 120, Scroll 480, Mount_comments [1, 1], Unmount_hook 0, Scroll 120]
      (demo_page [(''theme'', ''dark'')])) ''theme'' = Some ''dark''"
proof -
  let ?events = "[Mount_hook, Scroll 120, Scroll 480, Mount_comments [1, 1], Unmount_hook 0, Scroll 120]"
  let ?p = "demo_page [(''theme'', ''dark'')]"
  from storage_holds_last_scroll_offset [of demo_browser ?events ?p]
  obtain ws where
    ws: "storage_writes (run_page demo_browser ?events ?p) = storage_writes ?p @ ws"
    and frame: "\<forall>k. k \<noteq> ''scrollPosition'' \<longrightarrow>
        localStorage (run_page demo_browser ?events ?p) k = localStorage ?p k"
    and last: "localStorage (run_page demo_browser ?events ?p) ''scrollPosition'' =
        (if ws = [] then localStorage ?p ''scrollPosition'' else Some (snd (last ws)))"
    by blast
  from ws demo_session have "ws = [(''scrollPosition'', ''120''), (''scrollPosition'', ''480'')]"
    by simp
  with last frame demo_session show ?thesis by simp
qed

text \<open>
  C6. A hook mounted on a page where no other instance is mounted reads
  \<open>scrollPosition\<close> once and writes nothing while mounting. Every scroll event that
  follows appends one write of that event's \<open>scrollY\<close> under \<open>scrollPosition\<close>, so the
  stored value is the offset of the last event, and nothing more is read. The cleanup
  removes the listener: the scroll events after it write nothing. On any page on which
  the hook's listener is registered, a scroll event stores the offset.
\<close>

theorem scroll_hook_lifecycle:
  assumes "scroll_listeners p = []"
    and "useSaveScrollPosition_mount B p = (mounted, h)"
  shows "storage_reads mounted = storage_reads p @ [''scrollPosition'']
       \<and> storage_writes mounted = storage_writes p
       \<and> storage_writes (fold (scroll_event B) ys mounted) =
           storage_writes p @ map (\<lambda>y. (''scrollPosition'', String_of_number B y)) ys
       \<and> (ys \<noteq> [] \<longrightarrow>
            localStorage (fold (scroll_event B) ys mounted) ''scrollPosition'' =
              Some (String_of_number B (last ys)))
       \<and> storage_reads (fold (scroll_event B) ys mounted) =
           storage_reads p @ [''scrollPosition'']
       \<and> scroll_listeners
           (useSaveScrollPosition_cleanup h (fold (scroll_event B) ys mounted)) = []
       \<and> storage_writes (fold (scroll_event B) zs
             (useSaveScrollPosition_cleanup h (fold (scroll_event B) ys mounted))) =
           storage_writes (fold (scroll_event B) ys mounted)
       \<and> localStorage (fold (scroll_event B) zs
             (useSaveScrollPosition_cleanup h (fold (scroll_event B) ys mounted))) =
           localStorage (fold (scroll_event B) ys mounted)
       \<and> storage_reads (fold (scroll_event B) zs
             (useSaveScrollPosition_cleanup h (fold (scroll_event B) ys mounted))) =
           storage_reads p @ [''scrollPosition'']
       \<and> (h \<in> set (scroll_listeners q) \<longrightarrow>
            localStorage (scroll_event B y q) ''scrollPosition'' = Some (String_of_number B y)
            \<and> h \<notin> set (scroll_listeners (useSaveScrollPosition_cleanup h q)))"
proof -
  note m = mount_effects [OF assms(2)]
  from m assms(1) have one: "scroll_listeners mounted = [h]" by simp
  let ?scrolled = "fold (scroll_event B) ys mounted"
  let ?unmounted = "useSaveScrollPosition_cleanup h ?scrolled"
  note s = scroll_events_one_listener [OF one, of B ys]
  have gone: "scroll_listeners ?unmounted = []"
    using s by (simp add: useSaveScrollPosition_cleanup_def)
  note u = scroll_events_no_listener [OF gone, of B zs]
  have same: "storage_writes ?unmounted = storage_writes ?scrolled"
    "localStorage ?unmounted = localStorage ?scrolled"
    "storage_reads ?unmounted = storage_reads ?scrolled"
    by (simp_all add: useSaveScrollPosition_cleanup_def)
  have general: "h \<in> set (scroll_listeners q) \<longrightarrow>
      localStorage (scroll_event B y q) ''scrollPosition'' = Some (String_of_number B y)
      \<and> h \<notin> set (scroll_listeners (useSaveScrollPosition_cleanup h q))"
    by (auto simp: scroll_event_effects useSaveScrollPosition_cleanup_def)
  from m s gone u same general show ?thesis
    by simp
qed

theorem scroll_hook_lifecycle_witness:
  "scroll_listeners (demo_page []) = []
   \<and> storage_reads (fst (useSaveScrollPosition_mount demo_browser (demo_page []))) =
       [''scrollPosition'']
   \<and> storage_writes (fold (scroll_event demo_browser) [120, 480]
        (fst (useSaveScrollPosition_mount demo_browser (demo_page [])))) =
       [(''scrollPosition'', ''120''), (''scrollPosition'', ''480'')]
   \<and> localStorage (fold (scroll_event demo_browser) [120, 480]
        (fst (useSaveScrollPosition_mount demo_browser (demo_page [])))) ''scrollPosition'' =
       Some ''480''
   \<and> storage_writes (fold (scroll_event demo_browser) [120]
        (useSaveScrollPosition_cleanup (snd (useSaveScrollPosition_mount demo_browser (demo_page [])))
          (fold (scroll_event demo_browser) [120, 480]
            (fst (useSaveScrollPosition_mount demo_browser (demo_page [])))))) =
       [(''scrollPosition'', ''120''), (''scrollPosition'', ''480'')]"
proof -
  let ?m = "useSaveScrollPosition_mount demo_browser (demo_page [])"
  have h1: "scroll_listeners (demo_page []) = []"
    by (simp add: demo_page_def)
  have h2: "?m = (fst ?m, snd ?m)"
    by simp
  have v: "String_of_number demo_browser 120 = ''120''" "String_of_number demo_browser 480 = ''480''"
    "storage_reads (demo_page []) = []" "storage_writes (demo_page []) = []"
    by (simp_all add: demo_browser_def demo_page_def)
  from scroll_hook_lifecycle [OF h1 h2, of "[120, 480]" "[120]"] h1 v
  show ?thesis by simp
qed

text \<open>
  C7. When the component's \<open>div\<close> is in the page, the effect succeeds. It replaces the
  content of that \<open>div\<close> by a new \<open>div\<close> whose id is \<open>comments_\<close> followed by the time in
  milliseconds, and appends a \<open>script\<close> element as the last child of the first element of
  the page with that id. The script has \<open>src\<close> \<open>https://utteranc.es/client.js\<close>, the
  attributes \<open>repo\<close>, \<open>issue-term\<close>, \<open>theme\<close> and \<open>crossorigin\<close>, and \<open>async\<close> set. When
  no element of the page carried the id before, the script's parent is the new \<open>div\<close>.
\<close>

theorem Comments_mount_injects_script:
  assumes "lookup (document p) commentBox = Some box"
  shows "snd (Comments_mount B commentBox p) = Inr ()
       \<and> (\<exists>container e.
             lookup (document (fst (Comments_mount B commentBox p))) container = Some e
           \<and> map_of (attributes e) ''id'' = Some (''comments_'' @ decimal (Date_now_ms B))
           \<and> childNodes e \<noteq> []
           \<and> last (childNodes e) =
               Element ''script''
                 [(''src'', ''https://utteranc.es/client.js''),
                  (''repo'', ''mxmnci/portfolio-website''),
                  (''issue-term'', ''pathname''),
                  (''theme'', ''preferred-color-scheme''),
                  (''crossorigin'', ''anonymous'')]
                 True [])
       \<and> (getElementById (''comments_'' @ decimal (Date_now_ms B)) (document p) = None \<longrightarrow>
            lookup (document (fst (Comments_mount B commentBox p))) commentBox =
              Some (Element (tagName box) (attributes box) (async box)
                     [Element ''div'' [(''id'', ''comments_'' @ decimal (Date_now_ms B))] False
                        [Element ''script''
                           [(''src'', ''https://utteranc.es/client.js''),
                            (''repo'', ''mxmnci/portfolio-website''),
                            (''issue-term'', ''pathname''),
                            (''theme'', ''preferred-color-scheme''),
                            (''crossorigin'', ''anonymous'')]
                           True []]]))"
proof -
  let ?id = "''comments_'' @ decimal (Date_now_ms B)"
  let ?d1 = "update_at commentBox (set_innerHTML_div ?id) (document p)"
  from getElementById_after_innerHTML [OF assms, of ?id]
  obtain container where found: "getElementById ?id ?d1 = Some container"
    by blast
  let ?d2 = "update_at container (appendChild utterances_script) ?d1"
  have run: "Comments_mount B commentBox p = (p\<lparr>document := ?d2\<rparr>, Inr ())"
    using assms found by (simp add: Comments_mount_def Let_def)
  from getElementById_lookup [OF found] obtain e where
    e: "lookup ?d1 container = Some e" and eid: "map_of (attributes e) ''id'' = Some ?id"
    by blast
  from lookup_update_at [OF e, of "appendChild utterances_script"]
  have host: "lookup ?d2 container = Some (appendChild utterances_script e)" .
  have general: "\<exists>container e.
             lookup (document (fst (Comments_mount B commentBox p))) container = Some e
           \<and> map_of (attributes e) ''id'' = Some ?id
           \<and> childNodes e \<noteq> []
           \<and> last (childNodes e) = utterances_script"
    using host eid unfolding run
    by (intro exI [of _ container] exI [of _ "appendChild utterances_script e"])
       (simp add: appendChild_def)
  have fresh: "lookup (document (fst (Comments_mount B commentBox p))) commentBox =
      Some (Element (tagName box) (attributes box) (async box)
             [Element ''div'' [(''id'', ?id)] False [utterances_script]])"
    if none: "getElementById ?id (document p) = None"
  proof -
    from getElementById_fresh [OF assms none] found
    have c: "container = commentBox @ [0]" by simp
    have "?d2 = update_at commentBox
        (\<lambda>x. update_at [0] (appendChild utterances_script) (set_innerHTML_div ?id x)) (document p)"
      unfolding c by (rule update_at_append [OF assms])
    with lookup_update_at [OF assms] show ?thesis
      unfolding run by (simp add: set_innerHTML_div_def appendChild_def)
  qed
  from run general fresh show ?thesis
    unfolding utterances_script_eq by simp
qed

theorem Comments_mount_injects_script_witness:
  "lookup (document (demo_page [])) [1, 1] =
     Some (Element ''div'' [] False [Element ''p'' [] False []])
   \<and> snd (Comments_mount demo_browser [1, 1] (demo_page [])) = Inr ()
   \<and> lookup (document (fst (Comments_mount demo_browser [1, 1] (demo_page [])))) [1, 1] =
       Some (Element ''div'' [] False
              [Element ''div'' [(''id'', ''comments_1700000000000'')] False
                 [Element ''script''
                    [(''src'', ''https://utteranc.es/client.js''),
                     (''repo'', ''mxmnci/portfolio-website''),
                     (''issue-term'', ''pathname''),
                     (''theme'', ''preferred-color-scheme''),
                     (''crossorigin'', ''anonymous'')]
                    True []]])"
  using Comments_mount_injects_script [OF demo_comment_box(1), of demo_browser]
    demo_comment_box
  by simp

end
